theory Spec2Isabelle
  imports Main "HOL-Library.Word"
begin

section \<open>Errors\<close>

text \<open>
  Go's \<^verbatim>\<open>error\<close> values as data. \<^verbatim>\<open>io.EOF\<close> is the sentinel the ingest loop
  compares with \<^verbatim>\<open>==\<close>; \<^verbatim>\<open>fmt.Errorf\<close> builds a fresh error from a format and its
  arguments, and with \<^verbatim>\<open>%w\<close> wraps another error (the wrapper is never \<^verbatim>\<open>==\<close> to the
  error it wraps). A Go \<^verbatim>\<open>error\<close> that may be \<^verbatim>\<open>nil\<close> is an \<open>error option\<close>.
\<close>

datatype error =
    EOF
  | Errorf string "string list"
  | Wrapf string error

section \<open>The one-block suffix\<close>

text \<open>
  \<^verbatim>\<open>oneblockSuffixRegexp = regexp.MustCompile(`^[\w\-]+$`)\<close>, in both versions of the
  plugin. In Go's regexp syntax \<^verbatim>\<open>\w\<close> is the ASCII class \<^verbatim>\<open>[0-9A-Za-z_]\<close>, and \<^verbatim>\<open>^\<close>
  and \<^verbatim>\<open>$\<close> without the multi-line flag match only at the beginning and at the end of
  the text. A Go string is a sequence of bytes; every byte of a rune outside ASCII is
  at least 128 and so outside the class.
\<close>

definition isWordChar :: "char \<Rightarrow> bool" where
  "isWordChar c =
     (let n = (of_char c :: nat)
      in (48 \<le> n \<and> n \<le> 57) \<or> (65 \<le> n \<and> n \<le> 90) \<or> n = 95 \<or> (97 \<le> n \<and> n \<le> 122))"

definition isSuffixChar :: "char \<Rightarrow> bool" where
  "isSuffixChar c = (isWordChar c \<or> c = CHR ''-'')"

definition oneblockSuffixRegexp_MatchString :: "string \<Rightarrow> bool" where
  "oneblockSuffixRegexp_MatchString s = (s \<noteq> [] \<and> list_all isSuffixChar s)"

text \<open>\<^verbatim>\<open>validateOneBlockSuffix\<close> of \<^verbatim>\<open>src/mindreader/mindreader.go\<close> (lines 140-148).\<close>

definition validateOneBlockSuffix :: "string \<Rightarrow> error option" where
  "validateOneBlockSuffix suffix =
     (if suffix = [] then Some (Errorf ''oneblock_suffix cannot be empty'' [])
      else if \<not> oneblockSuffixRegexp_MatchString suffix
        then Some (Errorf ''oneblock_suffix contains invalid characters: %q'' [suffix])
      else None)"

text \<open>\<^verbatim>\<open>validateOneBlockSuffix\<close> of \<^verbatim>\<open>src/unnamed/part_001\<close> (lines 755-760).\<close>

definition validateOneBlockSuffix_001 :: "string \<Rightarrow> error option" where
  "validateOneBlockSuffix_001 suffix =
     (if suffix \<noteq> [] \<and> \<not> oneblockSuffixRegexp_MatchString suffix
        then Some (Errorf ''oneblock_suffix contains invalid characters: %q'' [suffix])
      else None)"

section \<open>Blocks, channels, goroutine outcomes\<close>

text \<open>
  \<^verbatim>\<open>bstream.Block\<close>, with the fields the plugin and the tests read. The field \<^verbatim>\<open>Id\<close> is
  named \<open>ID\<close> here, after its accessor; \<^verbatim>\<open>block.Num()\<close>, \<^verbatim>\<open>block.ID()\<close> and
  \<^verbatim>\<open>block.Time()\<close> return \<open>Number\<close>, \<open>ID\<close> and \<open>Timestamp\<close>. Block numbers are
  \<^verbatim>\<open>uint64\<close>; the order on words is the unsigned one. Times are nanoseconds.
\<close>

record Block =
  ID :: string
  Number :: "64 word"
  PreviousId :: string
  Timestamp :: int
  LibNum :: "64 word"

text \<open>
  A buffered Go channel: the entries in it, oldest first, its capacity, and whether it
  has been closed. Where a loop receives from a channel until it is closed, the channel
  handed to the model is the one the loop sees over its whole run: every entry it will
  receive, and whether the channel is closed after them.
\<close>

record 'a chan =
  queue :: "'a list"
  capacity :: nat
  isClosed :: bool

definition make_chan :: "nat \<Rightarrow> 'a chan" where
  "make_chan n = \<lparr>queue = [], capacity = n, isClosed = False\<rparr>"

text \<open>
  How a call or a goroutine ends: it returns, it stays parked on a blocking operation
  (\<open>Parked\<close> names the operation), or it panics.
\<close>

datatype wait =
    OnReadBlock
  | OnRangeLines
  | OnSendLines
  | OnRecvBlocks
  | OnArchiverTerminated
  | OnReadFlowDone

datatype outcome = Returned | Parked wait | Panicked

text \<open>
  \<^verbatim>\<open>ch <- x\<close>: a send on a closed channel panics, a send on a channel with room appends
  the entry, and a send on a full channel parks the sender until a receiver makes room.
\<close>

definition chan_send :: "'a chan \<Rightarrow> 'a \<Rightarrow> 'a chan \<times> outcome" where
  "chan_send c x =
     (if isClosed c then (c, Panicked)
      else if length (queue c) < capacity c then (c\<lparr>queue := queue c @ [x]\<rparr>, Returned)
      else (c, Parked OnSendLines))"

text \<open>\<^verbatim>\<open>close(ch)\<close>: closing a closed channel panics.\<close>

definition chan_close :: "'a chan \<Rightarrow> 'a chan \<times> outcome" where
  "chan_close c = (if isClosed c then (c, Panicked) else (c\<lparr>isClosed := True\<rparr>, Returned))"

text \<open>
  What the plugin does to its collaborators, in the order it does it: a call of
  \<^verbatim>\<open>headBlockUpdateFunc\<close>, a completed send \<^verbatim>\<open>blocks <- block\<close>, \<^verbatim>\<open>close(blocks)\<close>,
  \<^verbatim>\<open>p.Shutdown(err)\<close>, \<^verbatim>\<open>go p.Shutdown(err)\<close>, a line received and thrown away by
  \<^verbatim>\<open>drainMessages\<close>, \<^verbatim>\<open>archiver.StoreBlock\<close>, \<^verbatim>\<open>blockStreamServer.PushBlock\<close>,
  \<^verbatim>\<open>archiver.Shutdown(err)\<close>, the time spent in the \<^verbatim>\<open>select\<close> that waits for the archiver,
  and \<^verbatim>\<open>close(p.consumeReadFlowDone)\<close>. Log output is not recorded.
\<close>

datatype event =
    HeadBlockUpdated "64 word" string int
  | BlockSent Block
  | BlocksClosed
  | ShutdownCalled "error option"
  | ShutdownSpawned "error option"
  | LineDiscarded string
  | StoreBlockCalled Block
  | PushBlockCalled Block
  | ArchiverShutdownCalled "error option"
  | Waited nat
  | ReadFlowDoneClosed

section \<open>The shutter\<close>

text \<open>
  Modelled from the spec: \<^verbatim>\<open>shutter.Shutter\<close>, which the plugin embeds, comes from a
  package outside the sources at hand. The spec says of it: "\<^verbatim>\<open>Shutdown(err)\<close> is
  idempotent and safe from any task. It cancels the root context and flips a terminating
  flag that \<^verbatim>\<open>LogLine\<close> checks". Only the flag and the error of the first call are kept.
\<close>

record Shutter =
  terminating :: bool
  shutdownErr :: "error option"

definition shutter_New :: Shutter where
  "shutter_New = \<lparr>terminating = False, shutdownErr = None\<rparr>"

definition IsTerminating :: "Shutter \<Rightarrow> bool" where
  "IsTerminating s = terminating s"

definition Shutdown :: "error option \<Rightarrow> Shutter \<Rightarrow> Shutter" where
  "Shutdown err s = (if terminating s then s else s\<lparr>terminating := True, shutdownErr := err\<rparr>)"

section \<open>The plugin of \<^verbatim>\<open>src/mindreader/mindreader.go\<close>\<close>

text \<open>
  What \<^verbatim>\<open>NewArchiver\<close> is given by \<^verbatim>\<open>NewMindReaderPlugin\<close> (lines 113-121); the
  Archiver of this version is not part of the sources at hand.
\<close>

record Archiver =
  startBlockNum :: "64 word"
  oneBlockSuffix :: string

text \<open>
  \<^verbatim>\<open>MindReaderPlugin\<close> (lines 45-59). \<^verbatim>\<open>headBlockUpdateFunc\<close> and \<^verbatim>\<open>blockStreamServer\<close>
  are compared with \<^verbatim>\<open>nil\<close> only: the fields say whether they are set.
\<close>

record MindReaderPlugin =
  shutter :: Shutter
  archiver :: Archiver
  stopBlock :: "64 word"
  channelCapacity :: int
  headBlockUpdateFunc :: bool
  blockStreamServer :: bool
  lines :: "string chan option"

text \<open>
  \<^verbatim>\<open>newMindReaderPlugin\<close> (lines 150-170): \<^verbatim>\<open>lines\<close> is left \<^verbatim>\<open>nil\<close> until \<^verbatim>\<open>Launch\<close>.
\<close>

definition newMindReaderPlugin ::
  "Archiver \<Rightarrow> 64 word \<Rightarrow> int \<Rightarrow> bool \<Rightarrow> bool \<Rightarrow> error + MindReaderPlugin" where
  "newMindReaderPlugin a stopBlk cap hook server =
     Inr \<lparr>shutter = shutter_New, archiver = a, stopBlock = stopBlk, channelCapacity = cap,
          headBlockUpdateFunc = hook, blockStreamServer = server, lines = None\<rparr>"

text \<open>
  \<^verbatim>\<open>NewMindReaderPlugin\<close> (lines 65-137). The errors of \<^verbatim>\<open>os.MkdirAll\<close>,
  \<^verbatim>\<open>dstore.NewDBinStore\<close> and \<^verbatim>\<open>dstore.NewStore\<close> are inputs.
\<close>

record ctor_env =
  mkdirErr :: "error option"
  localStoreErr :: "error option"
  remoteStoreErr :: "error option"

definition NewMindReaderPlugin ::
  "ctor_env \<Rightarrow> 64 word \<Rightarrow> 64 word \<Rightarrow> int \<Rightarrow> bool \<Rightarrow> string \<Rightarrow> bool
     \<Rightarrow> error + MindReaderPlugin" where
  "NewMindReaderPlugin env startBlk stopBlk cap hook suffix server =
     (case validateOneBlockSuffix suffix of
        Some err \<Rightarrow> Inl err
      | None \<Rightarrow>
         (case mkdirErr env of
            Some err \<Rightarrow> Inl (Wrapf ''create working directory: %w'' err)
          | None \<Rightarrow>
             (case localStoreErr env of
                Some err \<Rightarrow> Inl (Wrapf ''new localOneBlocksDir: %w'' err)
              | None \<Rightarrow>
                 (case remoteStoreErr env of
                    Some err \<Rightarrow> Inl (Wrapf ''new remoteOneBlocksStore: %w'' err)
                  | None \<Rightarrow>
                     newMindReaderPlugin
                       \<lparr>startBlockNum = startBlk, oneBlockSuffix = suffix\<rparr>
                       stopBlk cap hook server))))"

text \<open>
  \<^verbatim>\<open>readOneMessage\<close> (lines 299-317). Its inputs are what \<^verbatim>\<open>consoleReader.ReadBlock()\<close>
  returns and what \<^verbatim>\<open>p.IsTerminating()\<close> answers at line 311: the flag belongs to the
  shutter and other goroutines set it. The send \<^verbatim>\<open>blocks <- block\<close> is recorded when
  it completes; the consumer is taken to keep receiving. The result is the trace
  of the call and the error returned.
\<close>

definition readOneMessage ::
  "MindReaderPlugin \<Rightarrow> error + Block \<Rightarrow> bool \<Rightarrow> event list \<times> error option" where
  "readOneMessage p r isTerminating =
     (case r of
        Inl err \<Rightarrow> ([], Some err)
      | Inr block \<Rightarrow>
          ((if headBlockUpdateFunc p
              then [HeadBlockUpdated (Number block) (ID block) (Timestamp block)] else [])
           @ [BlockSent block]
           @ (if stopBlock p \<noteq> 0 \<and> stopBlock p \<le> Number block \<and> \<not> isTerminating
                then [ShutdownSpawned None] else []),
           None))"

text \<open>
  \<^verbatim>\<open>drainMessages\<close> (lines 293-297): \<^verbatim>\<open>for line := range p.lines\<close> receives every entry
  and ends only once the channel is closed. The channel given here is the one the loop
  sees over its whole run: every line it will receive, and whether \<^verbatim>\<open>lines\<close> is closed
  after them.
\<close>

definition drainMessages :: "string chan \<Rightarrow> event list \<times> string chan \<times> outcome" where
  "drainMessages linesCh =
     (map LineDiscarded (queue linesCh), linesCh\<lparr>queue := []\<rparr>,
      if isClosed linesCh then Returned else Parked OnRangeLines)"

text \<open>
  The anonymous goroutine of \<^verbatim>\<open>launch\<close> (lines 205-222), the ingest loop. The console
  reader is a script: one entry for each call of \<^verbatim>\<open>readOneMessage\<close>, made of the result
  of \<^verbatim>\<open>ReadBlock()\<close> and the answer of \<^verbatim>\<open>IsTerminating()\<close>. When the script is used up
  the reader has nothing more to return and the goroutine stays parked in \<^verbatim>\<open>ReadBlock\<close>.
\<close>

fun launch ::
  "MindReaderPlugin \<Rightarrow> ((error + Block) \<times> bool) list \<Rightarrow> string chan
     \<Rightarrow> event list \<times> string chan \<times> outcome" where
  "launch p [] linesCh = ([], linesCh, Parked OnReadBlock)"
| "launch p ((r, isTerminating) # rs) linesCh =
     (case readOneMessage p r isTerminating of
        (evs, None) \<Rightarrow>
          (case launch p rs linesCh of (evs', linesCh', out) \<Rightarrow> (evs @ evs', linesCh', out))
      | (evs, Some err) \<Rightarrow>
          if err = EOF then (evs @ [BlocksClosed], linesCh, Returned)
          else
            (case drainMessages linesCh of
               (drained, linesCh', Returned) \<Rightarrow>
                 (evs @ [ShutdownCalled (Some err)] @ drained @ [BlocksClosed], linesCh', Returned)
             | (drained, linesCh', out) \<Rightarrow>
                 (evs @ [ShutdownCalled (Some err)] @ drained, linesCh', out)))"

text \<open>
  One block of the \<^verbatim>\<open>blocks\<close> channel as the consumer meets it: the block, and what the
  collaborators answer while it is processed. \<^verbatim>\<open>terminatingAfterStore\<close> and
  \<^verbatim>\<open>terminatingAfterPush\<close> are the answers of \<^verbatim>\<open>p.IsTerminating()\<close> after a failed
  \<^verbatim>\<open>StoreBlock\<close> and after a failed \<^verbatim>\<open>PushBlock\<close>.
\<close>

record blockEnv =
  storeBlockErr :: "error option"
  terminatingAfterStore :: bool
  pushBlockErr :: "error option"
  terminatingAfterPush :: bool

text \<open>The body of the loop of \<^verbatim>\<open>consumeReadFlow\<close> for a received block (lines 267-288).\<close>

definition pushBlock :: "bool \<Rightarrow> Block \<Rightarrow> blockEnv \<Rightarrow> event list" where
  "pushBlock server block env =
     (if server then
        PushBlockCalled block #
        (case pushBlockErr env of
           Some err \<Rightarrow>
             if \<not> terminatingAfterPush env
               then [ShutdownSpawned (Some (Wrapf ''blockstreamserver failed: %w'' err))]
             else []
         | None \<Rightarrow> [])
      else [])"

definition consumeBlock :: "MindReaderPlugin \<Rightarrow> Block \<Rightarrow> blockEnv \<Rightarrow> event list" where
  "consumeBlock p block env =
     StoreBlockCalled block #
     (case storeBlockErr env of
        Some err \<Rightarrow>
          if \<not> terminatingAfterStore env
            then [ShutdownSpawned (Some (Wrapf ''archiver store block failed: %w'' err))]
          else pushBlock (blockStreamServer p) block env
      | None \<Rightarrow> pushBlock (blockStreamServer p) block env)"

text \<open>
  \<^verbatim>\<open>consumeReadFlow\<close> (lines 248-291). The \<^verbatim>\<open>blocks\<close> channel is given as the consumer sees
  it over its whole run: the blocks it will receive and whether the channel is closed
  after them. \<^verbatim>\<open>terminatedAfter\<close> is the time, counted from the \<^verbatim>\<open>select\<close>, after which
  \<^verbatim>\<open>archiver.Terminated()\<close> is closed; \<open>None\<close> when it never is. The \<^verbatim>\<open>select\<close> of this
  version has that single case. The deferred \<^verbatim>\<open>close(p.consumeReadFlowDone)\<close> runs at the
  return.
\<close>

fun consumeLoop ::
  "MindReaderPlugin \<Rightarrow> (Block \<times> blockEnv) list \<Rightarrow> bool \<Rightarrow> nat option
     \<Rightarrow> event list \<times> outcome" where
  "consumeLoop p [] closed terminatedAfter =
     (if closed then
        (case terminatedAfter of
           None \<Rightarrow> ([ArchiverShutdownCalled None], Parked OnArchiverTerminated)
         | Some t \<Rightarrow> ([ArchiverShutdownCalled None, Waited t, ReadFlowDoneClosed], Returned))
      else ([], Parked OnRecvBlocks))"
| "consumeLoop p ((block, env) # rest) closed terminatedAfter =
     (case consumeLoop p rest closed terminatedAfter of
        (evs, out) \<Rightarrow> (consumeBlock p block env @ evs, out))"

definition consumeReadFlow ::
  "MindReaderPlugin \<Rightarrow> (Block \<times> blockEnv) chan \<Rightarrow> nat option \<Rightarrow> event list \<times> outcome" where
  "consumeReadFlow p blocks terminatedAfter =
     consumeLoop p (queue blocks) (isClosed blocks) terminatedAfter"

text \<open>
  \<^verbatim>\<open>LogLine\<close> (lines 320-325). A send on a \<^verbatim>\<open>nil\<close> channel parks the caller for ever.
\<close>

definition LogLine :: "MindReaderPlugin \<Rightarrow> string \<Rightarrow> MindReaderPlugin \<times> outcome" where
  "LogLine p line =
     (if IsTerminating (shutter p) then (p, Returned)
      else
        (case lines p of
           None \<Rightarrow> (p, Parked OnSendLines)
         | Some c \<Rightarrow> (case chan_send c line of (c', out) \<Rightarrow> (p\<lparr>lines := Some c'\<rparr>, out))))"

text \<open>
  \<^verbatim>\<open>Launch\<close> (lines 176-199), as far as the plugin's own fields go: it makes \<^verbatim>\<open>lines\<close> with
  capacity 10000 and, when the console reader factory fails, calls \<^verbatim>\<open>p.Shutdown(err)\<close>
  and goes on. The factory's error is an input.
\<close>

definition Launch :: "error option \<Rightarrow> MindReaderPlugin \<Rightarrow> MindReaderPlugin" where
  "Launch factoryErr p =
     (let p' = p\<lparr>lines := Some (make_chan 10000)\<rparr>
      in case factoryErr of
           Some err \<Rightarrow> p'\<lparr>shutter := Shutdown (Some err) (shutter p')\<rparr>
         | None \<Rightarrow> p')"

text \<open>
  \<^verbatim>\<open>Stop\<close> (lines 225-239). The receiver is a copy of the struct, but the shutter and the
  channel are shared with the plugin, so the plugin sees both effects.
  \<^verbatim>\<open>readFlowDone\<close> says whether \<^verbatim>\<open>consumeReadFlowDone\<close> is ever closed.
\<close>

definition Stop :: "bool \<Rightarrow> MindReaderPlugin \<Rightarrow> MindReaderPlugin \<times> outcome" where
  "Stop readFlowDone p =
     (case lines p of
        None \<Rightarrow> (p, Returned)
      | Some c \<Rightarrow>
          (let p' = p\<lparr>shutter := Shutdown None (shutter p)\<rparr>
           in case chan_close c of
                (c', Returned) \<Rightarrow>
                  (p'\<lparr>lines := Some c'\<rparr>,
                   if readFlowDone then Returned else Parked OnReadFlowDone)
              | (c', out) \<Rightarrow> (p', out)))"

section \<open>The plugin of \<^verbatim>\<open>src/unnamed/part_001\<close>\<close>

text \<open>
  Modelled from the spec: \<^verbatim>\<open>BlockNumberGate\<close>, \<^verbatim>\<open>NewBlockNumberGate\<close> and its method
  \<^verbatim>\<open>pass\<close> are used by this version of the plugin and are not part of the sources at
  hand. The spec says: "the block passes the optional start gate (\<^verbatim>\<open>num \<ge> start_block\<close>)".
\<close>

record BlockNumberGate =
  blockNum :: "64 word"

definition NewBlockNumberGate :: "64 word \<Rightarrow> BlockNumberGate" where
  "NewBlockNumberGate n = \<lparr>blockNum = n\<rparr>"

definition pass :: "BlockNumberGate \<Rightarrow> Block \<Rightarrow> bool" where
  "pass g block = (blockNum g \<le> Number block)"

text \<open>
  \<^verbatim>\<open>MindReaderPlugin\<close> of \<^verbatim>\<open>part_001\<close> (lines 585-609), with the fields its loops read.
  \<^verbatim>\<open>'obj\<close> is what the console reader returns and the transformer turns into a block.
  \<^verbatim>\<open>waitUploadCompleteOnShutdown\<close> is a \<^verbatim>\<open>time.Duration\<close>, in nanoseconds.
\<close>

record 'obj MindReaderPlugin_001 =
  startGate_001 :: BlockNumberGate
  stopBlock_001 :: "64 word"
  waitUploadCompleteOnShutdown_001 :: int
  transformer_001 :: "'obj \<Rightarrow> error + Block"
  channelCapacity_001 :: int
  headBlockUpdateFunc_001 :: bool
  blockStreamServer_001 :: bool

text \<open>
  \<^verbatim>\<open>newMindReaderPlugin\<close> of \<^verbatim>\<open>part_001\<close> (lines 764-792); \<^verbatim>\<open>NewMindReaderPlugin\<close> sets
  \<^verbatim>\<open>waitUploadCompleteOnShutdown\<close> afterwards (line 750).
\<close>

definition newMindReaderPlugin_001 ::
  "('obj \<Rightarrow> error + Block) \<Rightarrow> 64 word \<Rightarrow> 64 word \<Rightarrow> int \<Rightarrow> bool \<Rightarrow> bool
     \<Rightarrow> error + 'obj MindReaderPlugin_001" where
  "newMindReaderPlugin_001 tr startBlk stopBlk cap hook server =
     Inr \<lparr>startGate_001 = NewBlockNumberGate startBlk, stopBlock_001 = stopBlk,
          waitUploadCompleteOnShutdown_001 = 0, transformer_001 = tr,
          channelCapacity_001 = cap, headBlockUpdateFunc_001 = hook,
          blockStreamServer_001 = server\<rparr>"

text \<open>
  \<^verbatim>\<open>readOneMessage\<close> of \<^verbatim>\<open>part_001\<close> (lines 923-950). The inputs are the result of
  \<^verbatim>\<open>consoleReader.Read()\<close> and the answer of \<^verbatim>\<open>p.IsTerminating()\<close> at line 944.
\<close>

definition readOneMessage_001 ::
  "'obj MindReaderPlugin_001 \<Rightarrow> error + 'obj \<Rightarrow> bool \<Rightarrow> event list \<times> error option" where
  "readOneMessage_001 p r isTerminating =
     (case r of
        Inl err \<Rightarrow> ([], Some err)
      | Inr obj \<Rightarrow>
          (case transformer_001 p obj of
             Inl err \<Rightarrow>
               ([], Some (Wrapf ''unable to transform console read obj to bstream.Block: %w'' err))
           | Inr block \<Rightarrow>
               if \<not> pass (startGate_001 p) block then ([], None)
               else
                 ((if headBlockUpdateFunc_001 p
                     then [HeadBlockUpdated (Number block) (ID block) (Timestamp block)] else [])
                  @ [BlockSent block]
                  @ (if stopBlock_001 p \<noteq> 0 \<and> stopBlock_001 p \<le> Number block \<and> \<not> isTerminating
                       then [ShutdownSpawned None] else []),
                  None)))"

text \<open>
  The ingest goroutine of \<^verbatim>\<open>launch\<close> in \<^verbatim>\<open>part_001\<close> (lines 832-847): on an error other
  than \<^verbatim>\<open>io.EOF\<close> it calls \<^verbatim>\<open>p.Shutdown(err)\<close> and reads on.
\<close>

fun launch_001 ::
  "'obj MindReaderPlugin_001 \<Rightarrow> ((error + 'obj) \<times> bool) list \<Rightarrow> event list \<times> outcome" where
  "launch_001 p [] = ([], Parked OnReadBlock)"
| "launch_001 p ((r, isTerminating) # rs) =
     (case readOneMessage_001 p r isTerminating of
        (evs, None) \<Rightarrow>
          (case launch_001 p rs of (evs', out) \<Rightarrow> (evs @ evs', out))
      | (evs, Some err) \<Rightarrow>
          if err = EOF then (evs @ [BlocksClosed], Returned)
          else
            (case launch_001 p rs of
               (evs', out) \<Rightarrow> (evs @ [ShutdownCalled (Some err)] @ evs', out)))"

text \<open>
  The body of the loop of \<^verbatim>\<open>consumeReadFlow\<close> in \<^verbatim>\<open>part_001\<close> for a block that is not
  dropped (lines 897-918); the second component is the new value of \<^verbatim>\<open>dropBlocks\<close>.
\<close>

definition consumeBlock_001 ::
  "'obj MindReaderPlugin_001 \<Rightarrow> Block \<Rightarrow> blockEnv \<Rightarrow> event list \<times> bool" where
  "consumeBlock_001 p block env =
     (case storeBlockErr env of
        Some err \<Rightarrow>
          if \<not> terminatingAfterStore env
            then ([StoreBlockCalled block,
                   ShutdownSpawned (Some (Wrapf ''archiver store block failed: %w'' err))], True)
          else (StoreBlockCalled block # pushBlock (blockStreamServer_001 p) block env, False)
      | None \<Rightarrow> (StoreBlockCalled block # pushBlock (blockStreamServer_001 p) block env, False))"

text \<open>
  The \<^verbatim>\<open>select\<close> of \<^verbatim>\<open>part_001\<close> (lines 883-888) ends with the first of its two cases to
  be ready: \<^verbatim>\<open>time.After(d)\<close> fires after \<^verbatim>\<open>d\<close>, at once when \<^verbatim>\<open>d\<close> is not positive, and
  \<^verbatim>\<open>archiver.Terminated()\<close> is ready after \<^verbatim>\<open>terminatedAfter\<close>. The result is the time the
  \<^verbatim>\<open>select\<close> takes.
\<close>

definition select_001 :: "int \<Rightarrow> nat option \<Rightarrow> nat" where
  "select_001 d terminatedAfter =
     (case terminatedAfter of None \<Rightarrow> nat d | Some t \<Rightarrow> min t (nat d))"

text \<open>\<^verbatim>\<open>consumeReadFlow\<close> of \<^verbatim>\<open>part_001\<close> (lines 871-921).\<close>

fun consumeLoop_001 ::
  "'obj MindReaderPlugin_001 \<Rightarrow> bool \<Rightarrow> (Block \<times> blockEnv) list \<Rightarrow> bool \<Rightarrow> nat option
     \<Rightarrow> event list \<times> outcome" where
  "consumeLoop_001 p dropBlocks [] closed terminatedAfter =
     (if closed then
        ([ArchiverShutdownCalled None,
          Waited (select_001 (waitUploadCompleteOnShutdown_001 p) terminatedAfter),
          ReadFlowDoneClosed], Returned)
      else ([], Parked OnRecvBlocks))"
| "consumeLoop_001 p dropBlocks ((block, env) # rest) closed terminatedAfter =
     (if dropBlocks then consumeLoop_001 p dropBlocks rest closed terminatedAfter
      else
        (case consumeBlock_001 p block env of
           (evs, dropBlocks') \<Rightarrow>
             (case consumeLoop_001 p dropBlocks' rest closed terminatedAfter of
                (evs', out) \<Rightarrow> (evs @ evs', out))))"

definition consumeReadFlow_001 ::
  "'obj MindReaderPlugin_001 \<Rightarrow> (Block \<times> blockEnv) chan \<Rightarrow> nat option
     \<Rightarrow> event list \<times> outcome" where
  "consumeReadFlow_001 p blocks terminatedAfter =
     consumeLoop_001 p False (queue blocks) (isClosed blocks) terminatedAfter"

section \<open>The supervisor monitor of \<^verbatim>\<open>src/unnamed/part_000\<close>\<close>

text \<open>
  What \<^verbatim>\<open>s.api.GetInfo\<close> returns, with the fields \<^verbatim>\<open>Monitor\<close> reads. Times are
  nanoseconds; \<^verbatim>\<open>HeadBlockNum\<close> is converted with \<^verbatim>\<open>uint32(...)\<close> and \<^verbatim>\<open>uint64(...)\<close>.
\<close>

record ChainInfo =
  ChainID :: string
  ServerVersion :: string
  ServerVersionString :: string
  HeadBlockNum :: "32 word"
  HeadBlockTime :: int

record Options =
  ReadinessMaxLatency :: int
  MonitorHeadBlock :: bool

text \<open>
  \<^verbatim>\<open>NodeosSuperviser\<close>, with the fields \<^verbatim>\<open>Monitor\<close> writes. \<^verbatim>\<open>headBlockNumber\<close> and
  \<^verbatim>\<open>headBlockTimeDrift\<close> are the two gauges, holding the last value set.
\<close>

record NodeosSuperviser =
  options :: Options
  chainID :: string
  serverVersion :: string
  serverVersionString :: string
  lastBlockSeen :: "32 word"
  headBlockNumber :: "64 word"
  headBlockTimeDrift :: int
  readinessProbe :: bool

text \<open>
  The local variables of \<^verbatim>\<open>Monitor\<close> that outlive an iteration. \<^verbatim>\<open>getInfoFailureCount\<close>
  is a Go \<^verbatim>\<open>int\<close>, taken as 64 bits wide: \<^verbatim>\<open>++\<close> wraps around and \<^verbatim>\<open>>\<close> compares the
  signed values.
\<close>

record MonitorVars =
  lastHeadBlockTime :: int
  getInfoFailureCount :: "64 word"

definition MonitorVars_init :: MonitorVars where
  "MonitorVars_init = \<lparr>lastHeadBlockTime = 0, getInfoFailureCount = 0\<rparr>"

text \<open>
  What one iteration of the loop meets: whether the node is running, the answer of
  \<^verbatim>\<open>GetInfo\<close>, and the clock when \<^verbatim>\<open>time.Since\<close> is evaluated at line 66.
\<close>

record tick =
  isRunning :: bool
  getInfo :: "error + ChainInfo"
  now :: int

text \<open>
  \<^verbatim>\<open>time.Since(t)\<close> is \<^verbatim>\<open>time.Now().Sub(t)\<close>, a \<^verbatim>\<open>time.Duration\<close> (an \<^verbatim>\<open>int64\<close> of
  nanoseconds) that saturates at the smallest and the largest duration.
\<close>

definition time_Since :: "int \<Rightarrow> int \<Rightarrow> int" where
  "time_Since clock t = max (- (2 ^ 63)) (min (2 ^ 63 - 1) (clock - t))"

text \<open>\<^verbatim>\<open>setReadinessProbeOn\<close> and \<^verbatim>\<open>setReadinessProbeOff\<close> (lines 97-107): compare-and-set.\<close>

definition setReadinessProbeOn :: "NodeosSuperviser \<Rightarrow> NodeosSuperviser" where
  "setReadinessProbeOn s = (if readinessProbe s = False then s\<lparr>readinessProbe := True\<rparr> else s)"

definition setReadinessProbeOff :: "NodeosSuperviser \<Rightarrow> NodeosSuperviser" where
  "setReadinessProbeOff s = (if readinessProbe s = True then s\<lparr>readinessProbe := False\<rparr> else s)"

text \<open>
  One iteration of the loop of \<^verbatim>\<open>Monitor\<close> (lines 35-68), after the sleep. The rest of
  the body (lines 70-93) sets metrics and \<^verbatim>\<open>lastDbSizeTime\<close> and touches none of the
  fields above.
\<close>

definition Monitor_iteration ::
  "NodeosSuperviser \<times> MonitorVars \<Rightarrow> tick \<Rightarrow> NodeosSuperviser \<times> MonitorVars" where
  "Monitor_iteration sv t =
     (case sv of (s, v) \<Rightarrow>
        if \<not> isRunning t then (s, v\<lparr>getInfoFailureCount := 0\<rparr>)
        else
          (case getInfo t of
             Inl err \<Rightarrow>
               (let v' = v\<lparr>getInfoFailureCount := getInfoFailureCount v + 1\<rparr>
                in (if 5 < sint (getInfoFailureCount v') then setReadinessProbeOff s else s, v'))
           | Inr chainInfo \<Rightarrow>
               (let v' = v\<lparr>getInfoFailureCount := 0, lastHeadBlockTime := HeadBlockTime chainInfo\<rparr>;
                    s1 = s\<lparr>chainID := ChainID chainInfo,
                           serverVersion := ServerVersion chainInfo,
                           serverVersionString := ServerVersionString chainInfo,
                           lastBlockSeen := HeadBlockNum chainInfo\<rparr>;
                    s2 = (if MonitorHeadBlock (options s1)
                          then s1\<lparr>headBlockNumber := ucast (HeadBlockNum chainInfo),
                                  headBlockTimeDrift := lastHeadBlockTime v'\<rparr>
                          else s1);
                    s3 = (if ReadinessMaxLatency (options s2) = 0
                             \<or> time_Since (now t) (lastHeadBlockTime v')
                                 < ReadinessMaxLatency (options s2)
                          then setReadinessProbeOn s2 else s2)
                in (s3, v'))))"

text \<open>
  \<^verbatim>\<open>Monitor\<close> (lines 29-95) never returns; the model runs it over the iterations given
  and returns the supervisor and the loop's variables after the last of them.
\<close>

fun Monitor_loop ::
  "NodeosSuperviser \<times> MonitorVars \<Rightarrow> tick list \<Rightarrow> NodeosSuperviser \<times> MonitorVars" where
  "Monitor_loop sv [] = sv"
| "Monitor_loop sv (t # ts) = Monitor_loop (Monitor_iteration sv t) ts"

definition Monitor :: "NodeosSuperviser \<Rightarrow> tick list \<Rightarrow> NodeosSuperviser \<times> MonitorVars" where
  "Monitor s ts = Monitor_loop (s, MonitorVars_init) ts"

section \<open>Sample inputs\<close>

text \<open>Concrete values for the examples below.\<close>

definition sample_supervisor :: "bool \<Rightarrow> NodeosSuperviser" where
  "sample_supervisor ready =
     \<lparr>options = \<lparr>ReadinessMaxLatency = 10, MonitorHeadBlock = False\<rparr>,
      chainID = [], serverVersion = [], serverVersionString = [],
      lastBlockSeen = 0, headBlockNumber = 0, headBlockTimeDrift = 0,
      readinessProbe = ready\<rparr>"

definition failing_tick :: tick where
  "failing_tick = \<lparr>isRunning = True, getInfo = Inl (Errorf ''connection refused'' []), now = 0\<rparr>"

definition head_info :: "int \<Rightarrow> ChainInfo" where
  "head_info t = \<lparr>ChainID = ''aca3'', ServerVersion = ''v2'', ServerVersionString = ''v2.0.0'',
                   HeadBlockNum = 7, HeadBlockTime = t\<rparr>"

definition success_tick :: "int \<Rightarrow> int \<Rightarrow> tick" where
  "success_tick head clock = \<lparr>isRunning = True, getInfo = Inr (head_info head), now = clock\<rparr>"

definition sample_block :: "64 word \<Rightarrow> Block" where
  "sample_block n = \<lparr>ID = ''0a'', Number = n, PreviousId = ''09'', Timestamp = 0, LibNum = 0\<rparr>"

definition ctor_ok :: ctor_env where
  "ctor_ok = \<lparr>mkdirErr = None, localStoreErr = None, remoteStoreErr = None\<rparr>"

definition sample_plugin :: "64 word \<Rightarrow> MindReaderPlugin" where
  "sample_plugin stopBlk =
     \<lparr>shutter = shutter_New,
      archiver = \<lparr>startBlockNum = 10, oneBlockSuffix = ''suffix''\<rparr>,
      stopBlock = stopBlk, channelCapacity = 1, headBlockUpdateFunc = True,
      blockStreamServer = True, lines = None\<rparr>"

definition sample_plugin_001 :: "64 word \<Rightarrow> int \<Rightarrow> Block MindReaderPlugin_001" where
  "sample_plugin_001 startBlk wait =
     \<lparr>startGate_001 = NewBlockNumberGate startBlk, stopBlock_001 = 0,
      waitUploadCompleteOnShutdown_001 = wait, transformer_001 = Inr,
      channelCapacity_001 = 1, headBlockUpdateFunc_001 = True,
      blockStreamServer_001 = True\<rparr>"

definition sample_lines :: "string list \<Rightarrow> bool \<Rightarrow> string chan" where
  "sample_lines ls closed = \<lparr>queue = ls, capacity = 10000, isClosed = closed\<rparr>"

definition store_fails :: blockEnv where
  "store_fails =
     \<lparr>storeBlockErr = Some (Errorf ''disk full'' []), terminatingAfterStore = False,
      pushBlockErr = None, terminatingAfterPush = False\<rparr>"

definition all_fine :: blockEnv where
  "all_fine =
     \<lparr>storeBlockErr = None, terminatingAfterStore = False,
      pushBlockErr = None, terminatingAfterPush = False\<rparr>"

definition sample_blocks :: "(Block \<times> blockEnv) list \<Rightarrow> bool \<Rightarrow> (Block \<times> blockEnv) chan" where
  "sample_blocks bs closed = \<lparr>queue = bs, capacity = 1, isClosed = closed\<rparr>"

section \<open>The two suffix validators compared\<close>

lemma MatchString_examples:
  "oneblockSuffixRegexp_MatchString ''my-suffix_01''"
  "\<not> oneblockSuffixRegexp_MatchString ''a.b''"
  "\<not> oneblockSuffixRegexp_MatchString ''''"
  by (simp_all add: oneblockSuffixRegexp_MatchString_def isSuffixChar_def isWordChar_def)

text \<open>
  Claim C10, as stated: the two versions of \<^verbatim>\<open>validateOneBlockSuffix\<close> return an error
  for exactly the same suffixes, the empty string included. They do not: the empty
  suffix is an error in \<^verbatim>\<open>mindreader.go\<close> and accepted in \<^verbatim>\<open>part_001\<close>.
\<close>

theorem validateOneBlockSuffix_empty_differs:
  "\<not> ((validateOneBlockSuffix '''' = None) = (validateOneBlockSuffix_001 '''' = None))"
  by (simp add: validateOneBlockSuffix_def validateOneBlockSuffix_001_def)

text \<open>
  Claim C10, amended: on every non-empty suffix the two versions return the same
  result (the same error, or both \<^verbatim>\<open>nil\<close>); on the empty suffix \<^verbatim>\<open>mindreader.go\<close>
  returns the error "oneblock_suffix cannot be empty" and \<^verbatim>\<open>part_001\<close> returns \<^verbatim>\<open>nil\<close>.
\<close>

theorem validateOneBlockSuffix_agree_nonempty:
  "(suffix \<noteq> [] \<longrightarrow> validateOneBlockSuffix suffix = validateOneBlockSuffix_001 suffix)
   \<and> validateOneBlockSuffix [] = Some (Errorf ''oneblock_suffix cannot be empty'' [])
   \<and> validateOneBlockSuffix_001 [] = None"
  by (simp add: validateOneBlockSuffix_def validateOneBlockSuffix_001_def)

theorem validateOneBlockSuffix_agree_nonempty_witness:
  "''a.b'' \<noteq> [] \<and> validateOneBlockSuffix ''a.b'' = validateOneBlockSuffix_001 ''a.b''
   \<and> validateOneBlockSuffix_001 ''a.b''
       = Some (Errorf ''oneblock_suffix contains invalid characters: %q'' [''a.b''])"
  using validateOneBlockSuffix_agree_nonempty [of "''a.b''"]
  by (simp add: validateOneBlockSuffix_001_def oneblockSuffixRegexp_MatchString_def
      isSuffixChar_def isWordChar_def)

section \<open>The monitor: failures and readiness\<close>

lemma sint_word_of_nat_64: "n < 2 ^ 63 \<Longrightarrow> sint (word_of_nat n :: 64 word) = int n"
  apply (simp add: signed_of_nat)
  apply (rule signed_take_bit_int_eq_self)
   apply simp_all
  done

lemma Monitor_iteration_not_running:
  "\<not> isRunning t \<Longrightarrow> Monitor_iteration (s, v) t = (s, v\<lparr>getInfoFailureCount := 0\<rparr>)"
  by (simp add: Monitor_iteration_def)

lemma Monitor_iteration_failure:
  "isRunning t \<Longrightarrow> getInfo t = Inl e \<Longrightarrow>
   Monitor_iteration (s, v) t =
     (s\<lparr>readinessProbe := readinessProbe s \<and> \<not> 5 < sint (getInfoFailureCount v + 1)\<rparr>,
      v\<lparr>getInfoFailureCount := getInfoFailureCount v + 1\<rparr>)"
  by (simp add: Monitor_iteration_def setReadinessProbeOff_def Let_def)

lemma Monitor_iteration_success_count:
  "isRunning t \<Longrightarrow> getInfo t = Inr ci \<Longrightarrow>
   getInfoFailureCount (snd (Monitor_iteration (s, v) t)) = 0"
  by (simp add: Monitor_iteration_def Let_def)

lemma Monitor_iteration_success_readiness:
  "isRunning t \<Longrightarrow> getInfo t = Inr ci \<Longrightarrow>
   readinessProbe (fst (Monitor_iteration (s, v) t)) =
     (readinessProbe s \<or> ReadinessMaxLatency (options s) = 0
      \<or> time_Since (now t) (HeadBlockTime ci) < ReadinessMaxLatency (options s))"
  by (auto simp add: Monitor_iteration_def Let_def setReadinessProbeOn_def)

lemma Monitor_loop_failures:
  "\<forall>t \<in> set ts. isRunning t \<and> isl (getInfo t) \<Longrightarrow>
   getInfoFailureCount v = word_of_nat j \<Longrightarrow> j + length ts < 2 ^ 63 \<Longrightarrow>
   Monitor_loop (s, v) ts =
     (s\<lparr>readinessProbe := readinessProbe s \<and> (ts = [] \<or> j + length ts \<le> 5)\<rparr>,
      v\<lparr>getInfoFailureCount := word_of_nat (j + length ts)\<rparr>)"
proof (induction ts arbitrary: s v j)
  case Nil
  then show ?case by simp
next
  case (Cons t ts)
  from Cons.prems(1) obtain e where run: "isRunning t" and ge: "getInfo t = Inl e"
    by (cases "getInfo t") auto
  let ?v = "v\<lparr>getInfoFailureCount := getInfoFailureCount v + 1\<rparr>"
  let ?s = "s\<lparr>readinessProbe := readinessProbe s \<and> \<not> 5 < sint (getInfoFailureCount v + 1)\<rparr>"
  have cnt: "getInfoFailureCount ?v = word_of_nat (Suc j)"
    using Cons.prems(2) by simp
  have small: "Suc j < 2 ^ 63"
    using Cons.prems(3) by simp
  have sv: "sint (getInfoFailureCount v + 1) = int (Suc j)"
    using Cons.prems(2) sint_word_of_nat_64 [OF small] by (simp add: add.commute)
  have step: "Monitor_iteration (s, v) t = (?s, ?v)"
    by (rule Monitor_iteration_failure [OF run ge])
  have rest: "\<forall>t \<in> set ts. isRunning t \<and> isl (getInfo t)"
    using Cons.prems(1) by simp
  have len: "Suc j + length ts < 2 ^ 63"
    using Cons.prems(3) by simp
  have "Monitor_loop (s, v) (t # ts) = Monitor_loop (?s, ?v) ts"
    using step by simp
  also have "\<dots> =
     (?s\<lparr>readinessProbe := readinessProbe ?s \<and> (ts = [] \<or> Suc j + length ts \<le> 5)\<rparr>,
      ?v\<lparr>getInfoFailureCount := word_of_nat (Suc j + length ts)\<rparr>)"
    by (rule Cons.IH [OF rest cnt len])
  also have "\<dots> =
     (s\<lparr>readinessProbe := readinessProbe s \<and> (t # ts = [] \<or> j + length (t # ts) \<le> 5)\<rparr>,
      v\<lparr>getInfoFailureCount := word_of_nat (j + length (t # ts))\<rparr>)"
  proof -
    have "(\<not> 5 < int (Suc j) \<and> (ts = [] \<or> Suc j + length ts \<le> 5))
            = (j + length (t # ts) \<le> 5)"
      by (cases ts) auto
    then show ?thesis using sv by simp
  qed
  finally show ?case .
qed

text \<open>
  Claim C8, as stated: readiness is cleared when the count of consecutive \<^verbatim>\<open>GetInfo\<close>
  failures reaches 5. It is not: after five consecutive failures the counter is 5 and a
  supervisor that was ready is still ready, because the test is
  \<^verbatim>\<open>getInfoFailureCount > 5\<close>.
\<close>

theorem Monitor_five_failures_keep_readiness:
  "getInfoFailureCount (snd (Monitor (sample_supervisor True) (replicate 5 failing_tick))) = 5
   \<and> readinessProbe (fst (Monitor (sample_supervisor True) (replicate 5 failing_tick)))"
  by (simp add: Monitor_def MonitorVars_init_def sample_supervisor_def failing_tick_def
      Monitor_iteration_def setReadinessProbeOff_def numeral_eq_Suc)

text \<open>
  Claim C8, amended: in the \<^verbatim>\<open>Monitor\<close> loop readiness is cleared exactly at a failed
  \<^verbatim>\<open>GetInfo\<close> that brings the count of consecutive failures above 5, that is from the
  sixth consecutive failure on (up to five failures leave readiness as it was); the
  counter is reset to zero on any successful \<^verbatim>\<open>GetInfo\<close> and whenever the node is not
  running, and an iteration with the node not running changes nothing else.
\<close>

theorem Monitor_readiness_off_above_five_failures:
  "((\<forall>t \<in> set ts. isRunning t \<and> isl (getInfo t)) \<and> getInfoFailureCount v = 0
      \<and> length ts < 2 ^ 63 \<longrightarrow>
      getInfoFailureCount (snd (Monitor_loop (s, v) ts)) = word_of_nat (length ts)
      \<and> readinessProbe (fst (Monitor_loop (s, v) ts)) = (readinessProbe s \<and> length ts \<le> 5))
   \<and> (isRunning t \<and> isl (getInfo t) \<longrightarrow>
        getInfoFailureCount (snd (Monitor_iteration (s, v) t)) = getInfoFailureCount v + 1
        \<and> readinessProbe (fst (Monitor_iteration (s, v) t))
            = (readinessProbe s \<and> \<not> 5 < sint (getInfoFailureCount v + 1)))
   \<and> (isRunning t \<and> \<not> isl (getInfo t) \<longrightarrow>
        getInfoFailureCount (snd (Monitor_iteration (s, v) t)) = 0)
   \<and> (\<not> isRunning t \<longrightarrow>
        getInfoFailureCount (snd (Monitor_iteration (s, v) t)) = 0
        \<and> fst (Monitor_iteration (s, v) t) = s)"
proof (intro conjI impI)
  assume a: "(\<forall>t \<in> set ts. isRunning t \<and> isl (getInfo t)) \<and> getInfoFailureCount v = 0
      \<and> length ts < 2 ^ 63"
  then have run: "Monitor_loop (s, v) ts =
     (s\<lparr>readinessProbe := readinessProbe s \<and> (ts = [] \<or> 0 + length ts \<le> 5)\<rparr>,
      v\<lparr>getInfoFailureCount := word_of_nat (0 + length ts)\<rparr>)"
    by (intro Monitor_loop_failures) simp_all
  show "getInfoFailureCount (snd (Monitor_loop (s, v) ts)) = word_of_nat (length ts)"
    using run by simp
  show "readinessProbe (fst (Monitor_loop (s, v) ts)) = (readinessProbe s \<and> length ts \<le> 5)"
    using run by auto
next
  assume a: "isRunning t \<and> isl (getInfo t)"
  then obtain e where "getInfo t = Inl e" by (cases "getInfo t") auto
  with a have step: "Monitor_iteration (s, v) t =
     (s\<lparr>readinessProbe := readinessProbe s \<and> \<not> 5 < sint (getInfoFailureCount v + 1)\<rparr>,
      v\<lparr>getInfoFailureCount := getInfoFailureCount v + 1\<rparr>)"
    by (intro Monitor_iteration_failure) simp_all
  show "getInfoFailureCount (snd (Monitor_iteration (s, v) t)) = getInfoFailureCount v + 1"
    using step by simp
  show "readinessProbe (fst (Monitor_iteration (s, v) t))
            = (readinessProbe s \<and> \<not> 5 < sint (getInfoFailureCount v + 1))"
    using step by simp
next
  assume a: "isRunning t \<and> \<not> isl (getInfo t)"
  then obtain ci where "getInfo t = Inr ci" by (cases "getInfo t") auto
  with a show "getInfoFailureCount (snd (Monitor_iteration (s, v) t)) = 0"
    by (intro Monitor_iteration_success_count) simp_all
next
  assume "\<not> isRunning t"
  then show "getInfoFailureCount (snd (Monitor_iteration (s, v) t)) = 0"
    by (simp add: Monitor_iteration_not_running)
next
  assume "\<not> isRunning t"
  then show "fst (Monitor_iteration (s, v) t) = s"
    by (simp add: Monitor_iteration_not_running)
qed

text \<open>
  Five failures leave a ready supervisor ready, the sixth clears readiness, and a
  success or a stopped node resets a counter that stood at 6.
\<close>

theorem Monitor_readiness_off_above_five_failures_witness:
  "readinessProbe (fst (Monitor_loop (sample_supervisor True, MonitorVars_init)
      (replicate 5 failing_tick)))
   \<and> \<not> readinessProbe (fst (Monitor_loop (sample_supervisor True, MonitorVars_init)
      (replicate 6 failing_tick)))
   \<and> getInfoFailureCount (snd (Monitor_loop (sample_supervisor True, MonitorVars_init)
      (replicate 6 failing_tick))) = 6
   \<and> getInfoFailureCount (snd (Monitor_iteration
        (sample_supervisor False, MonitorVars_init\<lparr>getInfoFailureCount := 6\<rparr>)
        (success_tick 0 3))) = 0
   \<and> getInfoFailureCount (snd (Monitor_iteration
        (sample_supervisor False, MonitorVars_init\<lparr>getInfoFailureCount := 6\<rparr>)
        (failing_tick\<lparr>isRunning := False\<rparr>))) = 0"
  using Monitor_readiness_off_above_five_failures
          [of "replicate 5 failing_tick" MonitorVars_init "sample_supervisor True"
              "success_tick 0 3"]
        Monitor_readiness_off_above_five_failures
          [of "replicate 6 failing_tick" MonitorVars_init "sample_supervisor True"
              "failing_tick\<lparr>isRunning := False\<rparr>"]
        Monitor_readiness_off_above_five_failures
          [of "[]" "MonitorVars_init\<lparr>getInfoFailureCount := 6\<rparr>" "sample_supervisor False"
              "success_tick 0 3"]
        Monitor_readiness_off_above_five_failures
          [of "[]" "MonitorVars_init\<lparr>getInfoFailureCount := 6\<rparr>" "sample_supervisor False"
              "failing_tick\<lparr>isRunning := False\<rparr>"]
  by (simp add: MonitorVars_init_def sample_supervisor_def failing_tick_def success_tick_def)

text \<open>
  Claim C9, as stated: on a successful \<^verbatim>\<open>GetInfo\<close> readiness is set on when the time since
  the head block is at most the max latency. It is not at equality: with a max latency
  of 10 and a head block 10 old, a supervisor that was not ready stays not ready,
  because the test is \<^verbatim>\<open>time.Since(lastHeadBlockTime) < ReadinessMaxLatency\<close>.
\<close>

theorem Monitor_latency_equal_not_ready:
  "time_Since (now (success_tick 0 10)) (HeadBlockTime (head_info 0))
     = ReadinessMaxLatency (options (sample_supervisor False))
   \<and> \<not> readinessProbe (fst (Monitor_iteration (sample_supervisor False, MonitorVars_init)
          (success_tick 0 10)))"
  by (simp add: Monitor_iteration_def MonitorVars_init_def sample_supervisor_def
      success_tick_def head_info_def time_Since_def setReadinessProbeOn_def)

text \<open>
  Claim C9, amended: on every successful \<^verbatim>\<open>GetInfo\<close> in the \<^verbatim>\<open>Monitor\<close> loop, readiness is
  set on exactly when the configured max latency is zero or the time since the head
  block is strictly less than the max latency; otherwise readiness is left as it was
  (it is not cleared).
\<close>

theorem Monitor_readiness_on_below_max_latency:
  "isRunning t \<and> getInfo t = Inr chainInfo \<longrightarrow>
     readinessProbe (fst (Monitor_iteration (s, v) t)) =
       (readinessProbe s \<or> ReadinessMaxLatency (options s) = 0
        \<or> time_Since (now t) (HeadBlockTime chainInfo) < ReadinessMaxLatency (options s))"
  using Monitor_iteration_success_readiness by blast

text \<open>With a max latency of 10, a head block 9 old makes the supervisor ready.\<close>

theorem Monitor_readiness_on_below_max_latency_witness:
  "readinessProbe (fst (Monitor_iteration (sample_supervisor False, MonitorVars_init)
          (success_tick 0 9)))
   \<and> time_Since (now (success_tick 0 9)) (HeadBlockTime (head_info 0)) = 9"
  using Monitor_readiness_on_below_max_latency
          [of "success_tick 0 9" "head_info 0" "sample_supervisor False" MonitorVars_init]
  by (simp add: sample_supervisor_def success_tick_def head_info_def time_Since_def)

section \<open>The ingest loop\<close>

lemma readOneMessage_block:
  "readOneMessage p (Inr block) t =
     ((if headBlockUpdateFunc p
         then [HeadBlockUpdated (Number block) (ID block) (Timestamp block)] else [])
      @ BlockSent block
        # (if stopBlock p \<noteq> 0 \<and> stopBlock p \<le> Number block \<and> \<not> t
           then [ShutdownSpawned None] else []),
      None)"
  by (simp add: readOneMessage_def)

lemma launch_prefix:
  "\<forall>x \<in> set pre. \<not> isl (fst x) \<Longrightarrow>
   launch p (pre @ script) linesCh =
     (case launch p script linesCh of
        (evs, linesCh', out) \<Rightarrow> (fst (launch p pre linesCh) @ evs, linesCh', out))"
proof (induction pre)
  case Nil
  then show ?case by (simp split: prod.splits)
next
  case (Cons x pre)
  obtain r t where x: "x = (r, t)" by (cases x)
  with Cons.prems obtain b where r: "r = Inr b" by (cases r) auto
  from Cons.prems have "\<forall>x \<in> set pre. \<not> isl (fst x)" by simp
  then have IH: "launch p (pre @ script) linesCh =
     (case launch p script linesCh of
        (evs, linesCh', out) \<Rightarrow> (fst (launch p pre linesCh) @ evs, linesCh', out))"
    by (rule Cons.IH)
  show ?case
    by (simp add: x r readOneMessage_block IH split: prod.splits)
qed

lemma launch_error:
  "err \<noteq> EOF \<Longrightarrow>
   launch p ((Inl err, t) # rest) linesCh =
     (if isClosed linesCh
      then ([ShutdownCalled (Some err)] @ map LineDiscarded (queue linesCh) @ [BlocksClosed],
            linesCh\<lparr>queue := []\<rparr>, Returned)
      else ([ShutdownCalled (Some err)] @ map LineDiscarded (queue linesCh),
            linesCh\<lparr>queue := []\<rparr>, Parked OnRangeLines))"
  by (simp add: readOneMessage_def drainMessages_def)

lemma launch_EOF:
  "launch p ((Inl EOF, t) # rest) linesCh = ([BlocksClosed], linesCh, Returned)"
  by (simp add: readOneMessage_def)

text \<open>
  Claim C3, as stated, ends with the design note that every exit path of the ingest
  loop, the one on \<^verbatim>\<open>io.EOF\<close> included, drains \<^verbatim>\<open>lines\<close> before closing \<^verbatim>\<open>blocks\<close>.
  The path on \<^verbatim>\<open>io.EOF\<close> does not: it closes \<^verbatim>\<open>blocks\<close> and returns, and a line
  that is in \<^verbatim>\<open>lines\<close> stays there.
\<close>

theorem launch_EOF_leaves_lines:
  "launch (sample_plugin 0) [(Inl EOF, False)] (sample_lines [''a line''] True)
     = ([BlocksClosed], sample_lines [''a line''] True, Returned)
   \<and> queue (sample_lines [''a line''] True) \<noteq> []"
  by (simp add: readOneMessage_def sample_lines_def)

text \<open>
  Claim C3, amended: when \<^verbatim>\<open>readOneMessage\<close> returns an error other than \<^verbatim>\<open>io.EOF\<close>
  (after any number of blocks read without error), the ingest loop calls
  \<^verbatim>\<open>p.Shutdown\<close> with that error and then receives every entry of \<^verbatim>\<open>lines\<close>; once
  \<^verbatim>\<open>lines\<close> is closed it closes \<^verbatim>\<open>blocks\<close> and returns, and as long as \<^verbatim>\<open>lines\<close> is
  not closed it stays in \<^verbatim>\<open>drainMessages\<close> with \<^verbatim>\<open>blocks\<close> open. On \<^verbatim>\<open>io.EOF\<close> it closes
  \<^verbatim>\<open>blocks\<close> and returns without calling \<^verbatim>\<open>p.Shutdown\<close> and without draining
  \<^verbatim>\<open>lines\<close>.
\<close>

theorem launch_on_reader_error:
  "(\<forall>x \<in> set pre. \<not> isl (fst x)) \<longrightarrow>
     (err \<noteq> EOF \<and> isClosed linesCh \<longrightarrow>
        launch p (pre @ (Inl err, t) # rest) linesCh =
          (fst (launch p pre linesCh)
             @ [ShutdownCalled (Some err)] @ map LineDiscarded (queue linesCh) @ [BlocksClosed],
           linesCh\<lparr>queue := []\<rparr>, Returned))
   \<and> (err \<noteq> EOF \<and> \<not> isClosed linesCh \<longrightarrow>
        launch p (pre @ (Inl err, t) # rest) linesCh =
          (fst (launch p pre linesCh)
             @ [ShutdownCalled (Some err)] @ map LineDiscarded (queue linesCh),
           linesCh\<lparr>queue := []\<rparr>, Parked OnRangeLines))
   \<and> launch p (pre @ (Inl EOF, t) # rest) linesCh =
          (fst (launch p pre linesCh) @ [BlocksClosed], linesCh, Returned)"
proof (intro impI conjI)
  assume pre: "\<forall>x \<in> set pre. \<not> isl (fst x)"
  show "launch p (pre @ (Inl EOF, t) # rest) linesCh =
          (fst (launch p pre linesCh) @ [BlocksClosed], linesCh, Returned)"
    by (simp add: launch_prefix [OF pre] launch_EOF del: launch.simps)
  {
    assume "err \<noteq> EOF \<and> isClosed linesCh"
    then show "launch p (pre @ (Inl err, t) # rest) linesCh =
          (fst (launch p pre linesCh)
             @ [ShutdownCalled (Some err)] @ map LineDiscarded (queue linesCh) @ [BlocksClosed],
           linesCh\<lparr>queue := []\<rparr>, Returned)"
      by (simp add: launch_prefix [OF pre] launch_error del: launch.simps)
  }
  {
    assume "err \<noteq> EOF \<and> \<not> isClosed linesCh"
    then show "launch p (pre @ (Inl err, t) # rest) linesCh =
          (fst (launch p pre linesCh)
             @ [ShutdownCalled (Some err)] @ map LineDiscarded (queue linesCh),
           linesCh\<lparr>queue := []\<rparr>, Parked OnRangeLines)"
      by (simp add: launch_prefix [OF pre] launch_error del: launch.simps)
  }
qed

text \<open>
  One block read, then a reader error, with two lines waiting in a closed \<^verbatim>\<open>lines\<close>:
  shutdown with the error, both lines received, \<^verbatim>\<open>blocks\<close> closed.
\<close>

theorem launch_on_reader_error_witness:
  "launch (sample_plugin 0)
     [(Inr (sample_block 1), False), (Inl (Errorf ''broken pipe'' []), False)]
     (sample_lines [''line 1'', ''line 2''] True)
   = ([HeadBlockUpdated 1 ''0a'' 0, BlockSent (sample_block 1),
       ShutdownCalled (Some (Errorf ''broken pipe'' [])),
       LineDiscarded ''line 1'', LineDiscarded ''line 2'', BlocksClosed],
      sample_lines [] True, Returned)
   \<and> launch (sample_plugin 0)
     [(Inr (sample_block 1), False), (Inl (Errorf ''broken pipe'' []), False)]
     (sample_lines [''line 1'', ''line 2''] False)
   = ([HeadBlockUpdated 1 ''0a'' 0, BlockSent (sample_block 1),
       ShutdownCalled (Some (Errorf ''broken pipe'' [])),
       LineDiscarded ''line 1'', LineDiscarded ''line 2''],
      sample_lines [] False, Parked OnRangeLines)
   \<and> launch (sample_plugin 0) [(Inr (sample_block 1), False), (Inl EOF, False)]
     (sample_lines [''line 1'', ''line 2''] True)
   = ([HeadBlockUpdated 1 ''0a'' 0, BlockSent (sample_block 1), BlocksClosed],
      sample_lines [''line 1'', ''line 2''] True, Returned)"
proof -
  have pre: "\<forall>x \<in> set [(Inr (sample_block 1) :: error + Block, False)]. \<not> isl (fst x)"
    by simp
  have tr: "fst (launch (sample_plugin 0) [(Inr (sample_block 1), False)] linesCh)
              = [HeadBlockUpdated 1 ''0a'' 0, BlockSent (sample_block 1)]" for linesCh
    by (simp add: readOneMessage_def sample_plugin_def sample_block_def)
  note closed = launch_on_reader_error
      [where pre = "[(Inr (sample_block 1), False)]" and err = "Errorf ''broken pipe'' []"
         and linesCh = "sample_lines [''line 1'', ''line 2''] True" and p = "sample_plugin 0"
         and t = False and rest = "[]"]
  note opened = launch_on_reader_error
      [where pre = "[(Inr (sample_block 1), False)]" and err = "Errorf ''broken pipe'' []"
         and linesCh = "sample_lines [''line 1'', ''line 2''] False" and p = "sample_plugin 0"
         and t = False and rest = "[]"]
  from closed opened pre show ?thesis
    by (simp add: tr sample_lines_def del: launch.simps)
qed

lemma stop_after_send_append:
  assumes xs: "\<forall>pre post. xs = pre @ ShutdownSpawned None # post \<longrightarrow>
                 (\<exists>pre' b. pre = pre' @ [BlockSent b] \<and> P b)"
    and ys: "\<forall>pre post. ys = pre @ ShutdownSpawned None # post \<longrightarrow>
                 (\<exists>pre' b. pre = pre' @ [BlockSent b] \<and> P b)"
  shows "\<forall>pre post. xs @ ys = pre @ ShutdownSpawned None # post \<longrightarrow>
                 (\<exists>pre' b. pre = pre' @ [BlockSent b] \<and> P b)"
proof (intro allI impI)
  fix pre post
  assume eq: "xs @ ys = pre @ ShutdownSpawned None # post"
  then obtain us where us:
    "(xs = pre @ us \<and> us @ ys = ShutdownSpawned None # post)
     \<or> (xs @ us = pre \<and> ys = us @ ShutdownSpawned None # post)"
    unfolding append_eq_append_conv2 by blast
  have "(\<exists>us. xs = pre @ ShutdownSpawned None # us)
     \<or> (\<exists>us. pre = xs @ us \<and> ys = us @ ShutdownSpawned None # post)"
  proof (cases us)
    case Nil
    with us show ?thesis by auto
  next
    case (Cons u us')
    with us show ?thesis by auto
  qed
  then consider us where "xs = pre @ ShutdownSpawned None # us"
    | us where "pre = xs @ us" "ys = us @ ShutdownSpawned None # post"
    by blast
  then show "\<exists>pre' b. pre = pre' @ [BlockSent b] \<and> P b"
  proof cases
    case 1
    with xs show ?thesis by blast
  next
    case 2
    with ys obtain pre' b where "us = pre' @ [BlockSent b]" "P b" by blast
    with 2 have "pre = (xs @ pre') @ [BlockSent b]" by simp
    with \<open>P b\<close> show ?thesis by blast
  qed
qed

lemma stop_after_send_absent:
  "ShutdownSpawned None \<notin> set xs \<Longrightarrow>
   \<forall>pre post. xs = pre @ ShutdownSpawned None # post \<longrightarrow>
                 (\<exists>pre' b. pre = pre' @ [BlockSent b] \<and> P b)"
  by auto

lemma stop_after_send_readOneMessage:
  "\<forall>pre post. fst (readOneMessage p r t) = pre @ ShutdownSpawned None # post \<longrightarrow>
     (\<exists>pre' b. pre = pre' @ [BlockSent b] \<and> stopBlock p \<noteq> 0 \<and> stopBlock p \<le> Number b)"
proof (cases r)
  case (Inl err)
  then show ?thesis by (simp add: readOneMessage_def)
next
  case (Inr block)
  show ?thesis
    unfolding Inr readOneMessage_block fst_conv
    by (auto simp: Cons_eq_append_conv append_eq_Cons_conv)
qed

lemma stop_after_send_launch:
  "\<forall>pre post. fst (launch p script linesCh) = pre @ ShutdownSpawned None # post \<longrightarrow>
     (\<exists>pre' b. pre = pre' @ [BlockSent b] \<and> stopBlock p \<noteq> 0 \<and> stopBlock p \<le> Number b)"
proof (induction script)
  case Nil
  then show ?case by simp
next
  case (Cons x script)
  obtain r t where x: "x = (r, t)" by (cases x)
  obtain evs res where rd: "readOneMessage p r t = (evs, res)" by (cases "readOneMessage p r t")
  have evs: "\<forall>pre post. evs = pre @ ShutdownSpawned None # post \<longrightarrow>
     (\<exists>pre' b. pre = pre' @ [BlockSent b] \<and> stopBlock p \<noteq> 0 \<and> stopBlock p \<le> Number b)"
    using stop_after_send_readOneMessage [of p r t] rd by simp
  show ?case
  proof (cases res)
    case None
    obtain evs' l' out where rest: "launch p script linesCh = (evs', l', out)"
      by (cases "launch p script linesCh")
    have "fst (launch p (x # script) linesCh) = evs @ evs'"
      by (simp add: x rd None rest)
    moreover have "\<forall>pre post. evs' = pre @ ShutdownSpawned None # post \<longrightarrow>
     (\<exists>pre' b. pre = pre' @ [BlockSent b] \<and> stopBlock p \<noteq> 0 \<and> stopBlock p \<le> Number b)"
      using Cons.IH rest by simp
    ultimately show ?thesis
      using stop_after_send_append [OF evs, of evs'] by (simp only:)
  next
    case (Some err)
    define tl where "tl =
      (if err = EOF then [BlocksClosed]
       else if isClosed linesCh
         then ShutdownCalled (Some err) # map LineDiscarded (queue linesCh) @ [BlocksClosed]
       else ShutdownCalled (Some err) # map LineDiscarded (queue linesCh))"
    have tl: "fst (launch p (x # script) linesCh) = evs @ tl"
      by (simp add: x rd Some drainMessages_def tl_def)
    have no: "ShutdownSpawned None \<notin> set tl"
      by (auto simp: tl_def)
    show ?thesis
      unfolding tl
      by (rule stop_after_send_append [OF evs stop_after_send_absent [OF no]])
  qed
qed

text \<open>
  Claim C6: in \<^verbatim>\<open>mindreader.go\<close>, for every block read, \<^verbatim>\<open>readOneMessage\<close> returns \<^verbatim>\<open>nil\<close>
  and its trace is the hook call (when the hook is set), then the send of the block
  into \<^verbatim>\<open>blocks\<close>, then \<^verbatim>\<open>go p.Shutdown(nil)\<close> exactly when \<^verbatim>\<open>stopBlock\<close> is not zero, the
  block's number is at least \<^verbatim>\<open>stopBlock\<close> and the plugin is not terminating. Over the
  whole ingest loop, every \<^verbatim>\<open>go p.Shutdown(nil)\<close> comes directly after the send of a
  block whose number is at least the non-zero \<^verbatim>\<open>stopBlock\<close>: the stop block is sent
  before shutdown is requested.
\<close>

theorem readOneMessage_sends_before_stop:
  "snd (readOneMessage p (Inr block) t) = None
   \<and> (\<exists>hook. set hook \<subseteq> {HeadBlockUpdated (Number block) (ID block) (Timestamp block)}
        \<and> fst (readOneMessage p (Inr block) t) =
            hook @ BlockSent block
              # (if stopBlock p \<noteq> 0 \<and> stopBlock p \<le> Number block \<and> \<not> t
                 then [ShutdownSpawned None] else []))
   \<and> (\<forall>pre post. fst (launch p script linesCh) = pre @ ShutdownSpawned None # post \<longrightarrow>
        (\<exists>pre' b. pre = pre' @ [BlockSent b] \<and> stopBlock p \<noteq> 0 \<and> stopBlock p \<le> Number b))"
proof (intro conjI)
  show "snd (readOneMessage p (Inr block) t) = None"
    by (simp add: readOneMessage_block)
  show "\<exists>hook. set hook \<subseteq> {HeadBlockUpdated (Number block) (ID block) (Timestamp block)}
        \<and> fst (readOneMessage p (Inr block) t) =
            hook @ BlockSent block
              # (if stopBlock p \<noteq> 0 \<and> stopBlock p \<le> Number block \<and> \<not> t
                 then [ShutdownSpawned None] else [])"
    unfolding readOneMessage_block fst_conv
    by (rule exI [of _ "if headBlockUpdateFunc p
         then [HeadBlockUpdated (Number block) (ID block) (Timestamp block)] else []"]) auto
  show "\<forall>pre post. fst (launch p script linesCh) = pre @ ShutdownSpawned None # post \<longrightarrow>
        (\<exists>pre' b. pre = pre' @ [BlockSent b] \<and> stopBlock p \<noteq> 0 \<and> stopBlock p \<le> Number b)"
    by (rule stop_after_send_launch)
qed

text \<open>With stop block 5, block 5 is sent and then the shutdown is spawned.\<close>

theorem readOneMessage_sends_before_stop_witness:
  "fst (launch (sample_plugin 5) [(Inr (sample_block 5), False)] (sample_lines [] False))
     = [HeadBlockUpdated 5 ''0a'' 0, BlockSent (sample_block 5)] @ ShutdownSpawned None # []
   \<and> (\<exists>pre' b. [HeadBlockUpdated 5 ''0a'' 0, BlockSent (sample_block 5)] = pre' @ [BlockSent b]
          \<and> stopBlock (sample_plugin 5) \<noteq> 0 \<and> stopBlock (sample_plugin 5) \<le> Number b)"
proof -
  have run: "fst (launch (sample_plugin 5) [(Inr (sample_block 5), False)] (sample_lines [] False))
     = [HeadBlockUpdated 5 ''0a'' 0, BlockSent (sample_block 5)] @ ShutdownSpawned None # []"
    by (simp add: readOneMessage_def sample_plugin_def sample_block_def)
  note inst = readOneMessage_sends_before_stop
      [where p = "sample_plugin 5" and script = "[(Inr (sample_block 5), False)]"
         and linesCh = "sample_lines [] False"]
  from inst have "\<forall>pre post.
      fst (launch (sample_plugin 5) [(Inr (sample_block 5), False)] (sample_lines [] False))
        = pre @ ShutdownSpawned None # post \<longrightarrow>
      (\<exists>pre' b. pre = pre' @ [BlockSent b]
         \<and> stopBlock (sample_plugin 5) \<noteq> 0 \<and> stopBlock (sample_plugin 5) \<le> Number b)"
    by blast
  with run show ?thesis by blast
qed

lemma readOneMessage_001_events:
  "e \<in> set (fst (readOneMessage_001 p r t)) \<Longrightarrow>
   (\<exists>block. pass (startGate_001 p) block
      \<and> (e = BlockSent block
         \<or> e = HeadBlockUpdated (Number block) (ID block) (Timestamp block)
         \<or> e = ShutdownSpawned None))"
  by (auto simp: readOneMessage_001_def split: sum.splits if_splits)

lemma launch_001_events:
  "e \<in> set (fst (launch_001 p script)) \<Longrightarrow>
   (\<exists>block. pass (startGate_001 p) block
      \<and> (e = BlockSent block
         \<or> e = HeadBlockUpdated (Number block) (ID block) (Timestamp block)
         \<or> e = ShutdownSpawned None))
   \<or> e = BlocksClosed \<or> (\<exists>err. e = ShutdownCalled (Some err))"
proof (induction script)
  case Nil
  then show ?case by simp
next
  case (Cons x script)
  obtain r t where x: "x = (r, t)" by (cases x)
  obtain evs res where rd: "readOneMessage_001 p r t = (evs, res)"
    by (cases "readOneMessage_001 p r t")
  obtain evs' out where rest: "launch_001 p script = (evs', out)"
    by (cases "launch_001 p script")
  from Cons.prems have
    "e \<in> set evs \<or> e \<in> set evs' \<or> e = BlocksClosed \<or> (\<exists>err. e = ShutdownCalled (Some err))"
    by (auto simp: x rd rest split: option.splits if_splits)
  moreover have "e \<in> set evs \<Longrightarrow> ?case"
    using readOneMessage_001_events [of e p r t] rd by simp
  moreover have "e \<in> set evs' \<Longrightarrow> ?case"
    using Cons.IH rest by simp
  ultimately show ?case by blast
qed

text \<open>
  Claim C5, as stated, speaks of both versions of the ingest loop. In \<^verbatim>\<open>mindreader.go\<close>
  there is no start gate: \<^verbatim>\<open>NewMindReaderPlugin\<close> hands the start block to the
  Archiver only, and with start block 10 the block numbered 3 is sent into \<^verbatim>\<open>blocks\<close>
  and the hook is called for it.
\<close>

theorem readOneMessage_no_start_gate:
  "NewMindReaderPlugin ctor_ok 10 0 1 True ''suffix'' True = Inr (sample_plugin 0)
   \<and> Number (sample_block 3) < startBlockNum (archiver (sample_plugin 0))
   \<and> readOneMessage (sample_plugin 0) (Inr (sample_block 3)) False
       = ([HeadBlockUpdated 3 ''0a'' 0, BlockSent (sample_block 3)], None)"
  by (simp add: NewMindReaderPlugin_def newMindReaderPlugin_def validateOneBlockSuffix_def
      oneblockSuffixRegexp_MatchString_def isSuffixChar_def isWordChar_def ctor_ok_def
      sample_plugin_def sample_block_def readOneMessage_def)

text \<open>
  Claim C5, amended: in \<^verbatim>\<open>part_001\<close> the gate is made from the start block, a block
  whose number is below it is discarded by \<^verbatim>\<open>readOneMessage\<close> (nothing is sent, the hook
  is not called, \<^verbatim>\<open>nil\<close> is returned), and over the whole ingest loop every block sent
  into \<^verbatim>\<open>blocks\<close> and every call of the hook is for a block number at or above the
  start block. In \<^verbatim>\<open>mindreader.go\<close> the ingest loop has no start gate: the start block
  goes to the Archiver, and every block read is sent into \<^verbatim>\<open>blocks\<close>, after a call of
  the hook when it is set, whatever its number.
\<close>

theorem readOneMessage_001_start_gate:
  "(newMindReaderPlugin_001 tr startBlk stopBlk cap hook server = Inr p' \<longrightarrow>
      blockNum (startGate_001 p') = startBlk)
   \<and> (transformer_001 p obj = Inr block \<and> Number block < blockNum (startGate_001 p) \<longrightarrow>
        readOneMessage_001 p (Inr obj) t = ([], None))
   \<and> (BlockSent b \<in> set (fst (launch_001 p script)) \<longrightarrow>
        blockNum (startGate_001 p) \<le> Number b)
   \<and> (HeadBlockUpdated n i tm \<in> set (fst (launch_001 p script)) \<longrightarrow>
        blockNum (startGate_001 p) \<le> n)
   \<and> (NewMindReaderPlugin env startBlk stopBlk cap hook suffix server = Inr q \<longrightarrow>
        startBlockNum (archiver q) = startBlk
        \<and> BlockSent block \<in> set (fst (readOneMessage q (Inr block) t))
        \<and> (hook \<longrightarrow> HeadBlockUpdated (Number block) (ID block) (Timestamp block)
                     \<in> set (fst (readOneMessage q (Inr block) t))))"
proof (intro conjI impI)
  assume "newMindReaderPlugin_001 tr startBlk stopBlk cap hook server = Inr p'"
  then show "blockNum (startGate_001 p') = startBlk"
    by (auto simp: newMindReaderPlugin_001_def NewBlockNumberGate_def)
next
  assume "transformer_001 p obj = Inr block \<and> Number block < blockNum (startGate_001 p)"
  then show "readOneMessage_001 p (Inr obj) t = ([], None)"
    by (simp add: readOneMessage_001_def pass_def not_le)
next
  assume "BlockSent b \<in> set (fst (launch_001 p script))"
  from launch_001_events [OF this] show "blockNum (startGate_001 p) \<le> Number b"
    by (auto simp: pass_def)
next
  assume "HeadBlockUpdated n i tm \<in> set (fst (launch_001 p script))"
  from launch_001_events [OF this] show "blockNum (startGate_001 p) \<le> n"
    by (auto simp: pass_def)
next
  assume q: "NewMindReaderPlugin env startBlk stopBlk cap hook suffix server = Inr q"
  then have fields: "startBlockNum (archiver q) = startBlk \<and> headBlockUpdateFunc q = hook"
    by (auto simp: NewMindReaderPlugin_def newMindReaderPlugin_def split: option.splits)
  from fields show "startBlockNum (archiver q) = startBlk" by simp
  show "BlockSent block \<in> set (fst (readOneMessage q (Inr block) t))"
    by (simp add: readOneMessage_def)
  {
    assume hook
    with fields show "HeadBlockUpdated (Number block) (ID block) (Timestamp block)
                     \<in> set (fst (readOneMessage q (Inr block) t))"
      by (simp add: readOneMessage_def)
  }
qed

text \<open>
  With start block 10, \<^verbatim>\<open>part_001\<close> discards block 3 and passes block 12 on;
  \<^verbatim>\<open>mindreader.go\<close> sends block 3.
\<close>

theorem readOneMessage_001_start_gate_witness:
  "readOneMessage_001 (sample_plugin_001 10 0) (Inr (sample_block 3)) False = ([], None)
   \<and> launch_001 (sample_plugin_001 10 0)
        [(Inr (sample_block 3), False), (Inr (sample_block 12), False), (Inl EOF, False)]
       = ([HeadBlockUpdated 12 ''0a'' 0, BlockSent (sample_block 12), BlocksClosed], Returned)
   \<and> blockNum (startGate_001 (sample_plugin_001 10 0)) \<le> Number (sample_block 12)
   \<and> startBlockNum (archiver (sample_plugin 0)) = 10
   \<and> BlockSent (sample_block 3)
        \<in> set (fst (readOneMessage (sample_plugin 0) (Inr (sample_block 3)) False))"
proof -
  have ctor: "NewMindReaderPlugin ctor_ok 10 0 1 True ''suffix'' True = Inr (sample_plugin 0)"
    by (simp add: NewMindReaderPlugin_def newMindReaderPlugin_def validateOneBlockSuffix_def
      oneblockSuffixRegexp_MatchString_def isSuffixChar_def isWordChar_def ctor_ok_def
      sample_plugin_def)
  have run: "launch_001 (sample_plugin_001 10 0)
        [(Inr (sample_block 3), False), (Inr (sample_block 12), False), (Inl EOF, False)]
       = ([HeadBlockUpdated 12 ''0a'' 0, BlockSent (sample_block 12), BlocksClosed], Returned)"
    by (simp add: readOneMessage_001_def sample_plugin_001_def sample_block_def pass_def
        NewBlockNumberGate_def)
  have low: "transformer_001 (sample_plugin_001 10 0) (sample_block 3) = Inr (sample_block 3)
      \<and> Number (sample_block 3) < blockNum (startGate_001 (sample_plugin_001 10 0))"
    by (simp add: sample_plugin_001_def sample_block_def NewBlockNumberGate_def)
  have sent: "BlockSent (sample_block 12) \<in> set (fst (launch_001 (sample_plugin_001 10 0)
        [(Inr (sample_block 3), False), (Inr (sample_block 12), False), (Inl EOF, False)]))"
    unfolding run by simp
  note inst = readOneMessage_001_start_gate
      [of Inr 10 0 1 True True "sample_plugin_001 10 0" "sample_plugin_001 10 0"
          "sample_block 3" "sample_block 3" False "sample_block 12"
          "[(Inr (sample_block 3), False), (Inr (sample_block 12), False), (Inl EOF, False)]"
          12 "''0a''" 0 ctor_ok "''suffix''" "sample_plugin 0"]
  from inst low sent ctor run show ?thesis by simp
qed

section \<open>The consumer loop\<close>

lemma consumeLoop_closed:
  "consumeLoop p bs True tA =
     (fst (consumeLoop p bs False tA) @ fst (consumeLoop p [] True tA),
      snd (consumeLoop p [] True tA))"
  by (induction bs) (auto split: prod.splits)

lemma consumeLoop_stores_every_block:
  "(b, e) \<in> set bs \<Longrightarrow> StoreBlockCalled b \<in> set (fst (consumeLoop p bs closed tA))"
  by (induction bs) (auto simp: consumeBlock_def split: prod.splits)

lemma consumeLoop_001_open:
  "snd (consumeLoop_001 p d bs False tA) = Parked OnRecvBlocks"
  by (induction bs arbitrary: d) (auto simp: case_prod_unfold)

lemma consumeLoop_001_closed:
  "consumeLoop_001 p d bs True tA =
     (fst (consumeLoop_001 p d bs False tA)
        @ [ArchiverShutdownCalled None,
           Waited (select_001 (waitUploadCompleteOnShutdown_001 p) tA), ReadFlowDoneClosed],
      Returned)"
  by (induction bs arbitrary: d) (auto simp: case_prod_unfold)

lemma consumeLoop_001_dropping:
  "consumeLoop_001 p True bs closed tA = consumeLoop_001 p True [] closed tA"
  by (induction bs) auto

lemma consumeBlock_001_failure:
  "storeBlockErr e = Some err \<Longrightarrow> \<not> terminatingAfterStore e \<Longrightarrow>
   consumeBlock_001 p b e =
     ([StoreBlockCalled b,
       ShutdownSpawned (Some (Wrapf ''archiver store block failed: %w'' err))], True)"
  by (simp add: consumeBlock_001_def)

lemma consumeLoop_001_after_failure:
  assumes "storeBlockErr e = Some err" and "\<not> terminatingAfterStore e"
  shows "consumeLoop_001 p d (pre @ (b, e) # post) closed tA
           = consumeLoop_001 p d (pre @ [(b, e)]) closed tA"
proof (induction pre arbitrary: d)
  case Nil
  show ?case
    using consumeLoop_001_dropping [of p post closed tA]
    by (simp add: consumeBlock_001_failure [OF assms])
next
  case (Cons x pre)
  obtain b' e' where x: "x = (b', e')" by (cases x)
  show ?case
    by (simp add: x Cons.IH split: prod.splits)
qed

lemma select_001_bound: "select_001 d tA \<le> nat d"
  by (simp add: select_001_def split: option.splits)

text \<open>
  Claim C1, as stated, speaks of both versions of \<^verbatim>\<open>consumeReadFlow\<close>. In
  \<^verbatim>\<open>mindreader.go\<close> the \<^verbatim>\<open>select\<close> has no timeout: when \<^verbatim>\<open>blocks\<close> is closed and the
  archiver never signals \<^verbatim>\<open>Terminated\<close>, the loop never returns.
\<close>

theorem consumeReadFlow_waits_for_ever:
  "consumeReadFlow (sample_plugin 0) (sample_blocks [] True) None
     = ([ArchiverShutdownCalled None], Parked OnArchiverTerminated)"
  by (simp add: consumeReadFlow_def sample_blocks_def)

text \<open>
  Claim C1, amended: in \<^verbatim>\<open>part_001\<close>, when \<^verbatim>\<open>blocks\<close> is closed, \<^verbatim>\<open>consumeReadFlow\<close>
  shuts down the Archiver, waits for the archiver's terminated signal for at most
  \<^verbatim>\<open>waitUploadCompleteOnShutdown\<close> and returns; when the archiver never signals it
  returns after exactly that time. In \<^verbatim>\<open>mindreader.go\<close> it shuts down the Archiver and
  waits without a bound: it returns when the archiver signals, and never when the
  archiver never does.
\<close>

theorem consumeReadFlow_wait_on_close:
  "(isClosed blocks \<longrightarrow>
      consumeReadFlow_001 p blocks terminatedAfter =
        (fst (consumeReadFlow_001 p (blocks\<lparr>isClosed := False\<rparr>) terminatedAfter)
           @ [ArchiverShutdownCalled None,
              Waited (select_001 (waitUploadCompleteOnShutdown_001 p) terminatedAfter),
              ReadFlowDoneClosed],
         Returned)
      \<and> select_001 (waitUploadCompleteOnShutdown_001 p) terminatedAfter
            \<le> nat (waitUploadCompleteOnShutdown_001 p)
      \<and> select_001 (waitUploadCompleteOnShutdown_001 p) None
            = nat (waitUploadCompleteOnShutdown_001 p))
   \<and> (isClosed blocks \<longrightarrow>
      consumeReadFlow q blocks (Some t) =
        (fst (consumeReadFlow q (blocks\<lparr>isClosed := False\<rparr>) (Some t))
           @ [ArchiverShutdownCalled None, Waited t, ReadFlowDoneClosed],
         Returned)
      \<and> consumeReadFlow q blocks None =
        (fst (consumeReadFlow q (blocks\<lparr>isClosed := False\<rparr>) None)
           @ [ArchiverShutdownCalled None],
         Parked OnArchiverTerminated))"
proof (intro conjI impI)
  assume c: "isClosed blocks"
  show "consumeReadFlow_001 p blocks terminatedAfter =
        (fst (consumeReadFlow_001 p (blocks\<lparr>isClosed := False\<rparr>) terminatedAfter)
           @ [ArchiverShutdownCalled None,
              Waited (select_001 (waitUploadCompleteOnShutdown_001 p) terminatedAfter),
              ReadFlowDoneClosed],
         Returned)"
    using c by (simp add: consumeReadFlow_001_def consumeLoop_001_closed)
  show "select_001 (waitUploadCompleteOnShutdown_001 p) terminatedAfter
            \<le> nat (waitUploadCompleteOnShutdown_001 p)"
    by (rule select_001_bound)
  show "select_001 (waitUploadCompleteOnShutdown_001 p) None
            = nat (waitUploadCompleteOnShutdown_001 p)"
    by (simp add: select_001_def)
  show "consumeReadFlow q blocks (Some t) =
        (fst (consumeReadFlow q (blocks\<lparr>isClosed := False\<rparr>) (Some t))
           @ [ArchiverShutdownCalled None, Waited t, ReadFlowDoneClosed],
         Returned)"
    using c consumeLoop_closed [of q "queue blocks" "Some t"]
    by (simp add: consumeReadFlow_def)
  show "consumeReadFlow q blocks None =
        (fst (consumeReadFlow q (blocks\<lparr>isClosed := False\<rparr>) None)
           @ [ArchiverShutdownCalled None],
         Parked OnArchiverTerminated)"
    using c consumeLoop_closed [of q "queue blocks" None]
    by (simp add: consumeReadFlow_def)
qed

text \<open>
  With a wait of 30: \<^verbatim>\<open>part_001\<close> returns after 30 when the archiver never signals
  and after 7 when it signals after 7; \<^verbatim>\<open>mindreader.go\<close> returns after 7 in the second
  case and stays parked in the first.
\<close>

theorem consumeReadFlow_wait_on_close_witness:
  "consumeReadFlow_001 (sample_plugin_001 0 30) (sample_blocks [(sample_block 1, all_fine)] True) None
     = ([StoreBlockCalled (sample_block 1), PushBlockCalled (sample_block 1),
         ArchiverShutdownCalled None, Waited 30, ReadFlowDoneClosed], Returned)
   \<and> consumeReadFlow_001 (sample_plugin_001 0 30) (sample_blocks [] True) (Some 7)
     = ([ArchiverShutdownCalled None, Waited 7, ReadFlowDoneClosed], Returned)
   \<and> consumeReadFlow (sample_plugin 0) (sample_blocks [] True) (Some 7)
     = ([ArchiverShutdownCalled None, Waited 7, ReadFlowDoneClosed], Returned)
   \<and> snd (consumeReadFlow (sample_plugin 0) (sample_blocks [] True) None)
     = Parked OnArchiverTerminated"
  using consumeReadFlow_wait_on_close
          [where blocks = "sample_blocks [(sample_block 1, all_fine)] True"
             and p = "sample_plugin_001 0 30" and terminatedAfter = None
             and q = "sample_plugin 0" and t = 7]
        consumeReadFlow_wait_on_close
          [where blocks = "sample_blocks [] True" and p = "sample_plugin_001 0 30"
             and terminatedAfter = "Some 7" and q = "sample_plugin 0" and t = 7]
  by (simp add: sample_blocks_def sample_plugin_001_def consumeReadFlow_001_def
      consumeReadFlow_def consumeBlock_001_def pushBlock_def all_fine_def select_001_def)

text \<open>
  Claim C2, as stated, speaks of both versions of \<^verbatim>\<open>consumeReadFlow\<close>. In
  \<^verbatim>\<open>mindreader.go\<close> there is no drop flag: after \<^verbatim>\<open>StoreBlock\<close> has failed on block 1
  while the plugin is not terminating, block 2 is still stored and pushed.
\<close>

theorem consumeReadFlow_stores_after_failure:
  "consumeReadFlow (sample_plugin 0)
     (sample_blocks [(sample_block 1, store_fails), (sample_block 2, all_fine)] True) (Some 0)
     = ([StoreBlockCalled (sample_block 1),
         ShutdownSpawned
           (Some (Wrapf ''archiver store block failed: %w'' (Errorf ''disk full'' []))),
         StoreBlockCalled (sample_block 2), PushBlockCalled (sample_block 2),
         ArchiverShutdownCalled None, Waited 0, ReadFlowDoneClosed], Returned)"
  by (simp add: consumeReadFlow_def sample_blocks_def consumeBlock_def pushBlock_def
      store_fails_def all_fine_def sample_plugin_def)

text \<open>
  Claim C2, amended: in \<^verbatim>\<open>part_001\<close>, a \<^verbatim>\<open>StoreBlock\<close> that fails while the plugin is
  not terminating sets \<^verbatim>\<open>dropBlocks\<close> and spawns the shutdown, and the run is then the
  same as if no further block had been received: on the blocks received afterwards
  neither \<^verbatim>\<open>StoreBlock\<close> nor \<^verbatim>\<open>PushBlock\<close> is called. In \<^verbatim>\<open>mindreader.go\<close> there is no
  drop flag: such a failure spawns the shutdown and skips the push of that block only,
  and \<^verbatim>\<open>StoreBlock\<close> is called on every block received.
\<close>

theorem consumeReadFlow_drops_after_failure:
  "(storeBlockErr e = Some err \<and> \<not> terminatingAfterStore e \<longrightarrow>
      consumeBlock_001 p b e =
        ([StoreBlockCalled b,
          ShutdownSpawned (Some (Wrapf ''archiver store block failed: %w'' err))], True)
      \<and> consumeReadFlow_001 p (blocks\<lparr>queue := pre @ (b, e) # post\<rparr>) terminatedAfter
          = consumeReadFlow_001 p (blocks\<lparr>queue := pre @ [(b, e)]\<rparr>) terminatedAfter
      \<and> consumeBlock q b e =
        [StoreBlockCalled b,
         ShutdownSpawned (Some (Wrapf ''archiver store block failed: %w'' err))])
   \<and> ((b', e') \<in> set (queue blocks) \<longrightarrow>
        StoreBlockCalled b' \<in> set (fst (consumeReadFlow q blocks terminatedAfter)))"
proof (intro conjI impI)
  assume a: "storeBlockErr e = Some err \<and> \<not> terminatingAfterStore e"
  then have e: "storeBlockErr e = Some err" and t: "\<not> terminatingAfterStore e" by simp_all
  show "consumeBlock_001 p b e =
        ([StoreBlockCalled b,
          ShutdownSpawned (Some (Wrapf ''archiver store block failed: %w'' err))], True)"
    by (rule consumeBlock_001_failure [OF e t])
  show "consumeReadFlow_001 p (blocks\<lparr>queue := pre @ (b, e) # post\<rparr>) terminatedAfter
          = consumeReadFlow_001 p (blocks\<lparr>queue := pre @ [(b, e)]\<rparr>) terminatedAfter"
    using consumeLoop_001_after_failure [OF e t]
    by (simp add: consumeReadFlow_001_def)
  show "consumeBlock q b e =
        [StoreBlockCalled b,
         ShutdownSpawned (Some (Wrapf ''archiver store block failed: %w'' err))]"
    using e t by (simp add: consumeBlock_def)
next
  assume "(b', e') \<in> set (queue blocks)"
  then show "StoreBlockCalled b' \<in> set (fst (consumeReadFlow q blocks terminatedAfter))"
    by (simp add: consumeReadFlow_def consumeLoop_stores_every_block)
qed

text \<open>
  \<^verbatim>\<open>StoreBlock\<close> fails on the second of three blocks: \<^verbatim>\<open>part_001\<close> does nothing with the
  third, \<^verbatim>\<open>mindreader.go\<close> stores it.
\<close>

theorem consumeReadFlow_drops_after_failure_witness:
  "consumeReadFlow_001 (sample_plugin_001 0 30)
     (sample_blocks
        [(sample_block 1, all_fine), (sample_block 2, store_fails), (sample_block 3, all_fine)]
        True) (Some 0)
     = ([StoreBlockCalled (sample_block 1), PushBlockCalled (sample_block 1),
         StoreBlockCalled (sample_block 2),
         ShutdownSpawned
           (Some (Wrapf ''archiver store block failed: %w'' (Errorf ''disk full'' []))),
         ArchiverShutdownCalled None, Waited 0, ReadFlowDoneClosed], Returned)
   \<and> StoreBlockCalled (sample_block 3)
       \<in> set (fst (consumeReadFlow (sample_plugin 0)
            (sample_blocks
               [(sample_block 1, all_fine), (sample_block 2, store_fails),
                (sample_block 3, all_fine)] True) (Some 0)))"
proof -
  have f: "storeBlockErr store_fails = Some (Errorf ''disk full'' [])
           \<and> \<not> terminatingAfterStore store_fails"
    by (simp add: store_fails_def)
  have m: "(sample_block 3, all_fine) \<in> set (queue (sample_blocks
        [(sample_block 1, all_fine), (sample_block 2, store_fails), (sample_block 3, all_fine)]
        True))"
    by (simp add: sample_blocks_def)
  note inst = consumeReadFlow_drops_after_failure
      [where e = store_fails and err = "Errorf ''disk full'' []"
         and p = "sample_plugin_001 0 30" and b = "sample_block 2"
         and blocks = "sample_blocks
            [(sample_block 1, all_fine), (sample_block 2, store_fails), (sample_block 3, all_fine)]
            True"
         and pre = "[(sample_block 1, all_fine)]" and post = "[(sample_block 3, all_fine)]"
         and terminatedAfter = "Some 0" and q = "sample_plugin 0"
         and b' = "sample_block 3" and e' = all_fine]
  have short: "consumeReadFlow_001 (sample_plugin_001 0 30)
     (sample_blocks [(sample_block 1, all_fine), (sample_block 2, store_fails)] True) (Some 0)
     = ([StoreBlockCalled (sample_block 1), PushBlockCalled (sample_block 1),
         StoreBlockCalled (sample_block 2),
         ShutdownSpawned
           (Some (Wrapf ''archiver store block failed: %w'' (Errorf ''disk full'' []))),
         ArchiverShutdownCalled None, Waited 0, ReadFlowDoneClosed], Returned)"
    by (simp add: sample_blocks_def sample_plugin_001_def consumeReadFlow_001_def
      consumeBlock_001_def pushBlock_def all_fine_def store_fails_def select_001_def)
  from inst f m short show ?thesis
    by (simp add: sample_blocks_def)
qed

section \<open>Log lines and the terminating flag\<close>

text \<open>
  Claim C7, as stated: before the terminating flag is set, \<^verbatim>\<open>LogLine\<close> enqueues the line.
  It does not on the plugin as \<^verbatim>\<open>NewMindReaderPlugin\<close> returns it: the flag is not set
  and \<^verbatim>\<open>lines\<close> is still \<^verbatim>\<open>nil\<close>, so the send parks the caller for ever and nothing is
  enqueued. Nor does it on a launched plugin whose \<^verbatim>\<open>lines\<close> is full: the call waits
  and \<^verbatim>\<open>lines\<close> is as it was.
\<close>

theorem LogLine_parks_before_Launch:
  "NewMindReaderPlugin ctor_ok 10 0 1 True ''suffix'' True = Inr (sample_plugin 0)
   \<and> \<not> IsTerminating (shutter (sample_plugin 0))
   \<and> lines (sample_plugin 0) = None
   \<and> LogLine (sample_plugin 0) ''a line'' = (sample_plugin 0, Parked OnSendLines)
   \<and> \<not> IsTerminating
         (shutter ((sample_plugin 0)\<lparr>lines :=
            Some \<lparr>queue = [''line 1''], capacity = 1, isClosed = False\<rparr>\<rparr>))
   \<and> LogLine
         ((sample_plugin 0)\<lparr>lines :=
            Some \<lparr>queue = [''line 1''], capacity = 1, isClosed = False\<rparr>\<rparr>) ''a line''
       = ((sample_plugin 0)\<lparr>lines :=
            Some \<lparr>queue = [''line 1''], capacity = 1, isClosed = False\<rparr>\<rparr>,
          Parked OnSendLines)"
  by (simp add: NewMindReaderPlugin_def newMindReaderPlugin_def validateOneBlockSuffix_def
      oneblockSuffixRegexp_MatchString_def isSuffixChar_def isWordChar_def ctor_ok_def
      sample_plugin_def LogLine_def IsTerminating_def shutter_New_def chan_send_def)

text \<open>
  Claim C7, amended: once the terminating flag is set, every call of \<^verbatim>\<open>LogLine\<close> returns
  and leaves the plugin, its \<^verbatim>\<open>lines\<close> channel included, as it was: nothing is sent,
  the call neither waits nor panics. That is so after any \<^verbatim>\<open>Shutdown\<close>, and after
  \<^verbatim>\<open>Stop\<close> on a launched plugin, which sets the flag before it closes \<^verbatim>\<open>lines\<close>. Before
  the flag is set \<^verbatim>\<open>LogLine\<close> does the send \<^verbatim>\<open>p.lines <- in\<close>, and the line is enqueued
  exactly when \<^verbatim>\<open>lines\<close> has been made, is open and has room: then the line is appended
  to \<^verbatim>\<open>lines\<close> and the call returns. On an open channel that is full the call waits
  and nothing is enqueued; on a closed channel it panics; before \<^verbatim>\<open>Launch\<close>, with
  \<^verbatim>\<open>lines\<close> still \<^verbatim>\<open>nil\<close>, it waits for ever. In these three cases the plugin is left as
  it was.
\<close>

theorem LogLine_by_flag_and_channel:
  "(IsTerminating (shutter p) \<longrightarrow> LogLine p line = (p, Returned))
   \<and> LogLine (p\<lparr>shutter := Shutdown err (shutter p)\<rparr>) line
       = (p\<lparr>shutter := Shutdown err (shutter p)\<rparr>, Returned)
   \<and> (lines p = Some c \<and> \<not> isClosed c \<longrightarrow>
        lines (fst (Stop readFlowDone p)) = Some (c\<lparr>isClosed := True\<rparr>)
        \<and> LogLine (fst (Stop readFlowDone p)) line = (fst (Stop readFlowDone p), Returned))
   \<and> (\<not> IsTerminating (shutter p) \<and> lines p = Some c \<longrightarrow>
        LogLine p line = (p\<lparr>lines := Some (fst (chan_send c line))\<rparr>, snd (chan_send c line)))
   \<and> (\<not> IsTerminating (shutter p) \<and> lines p = Some c \<and> \<not> isClosed c
        \<and> length (queue c) < capacity c \<longrightarrow>
        LogLine p line = (p\<lparr>lines := Some (c\<lparr>queue := queue c @ [line]\<rparr>)\<rparr>, Returned))
   \<and> (\<not> IsTerminating (shutter p) \<and> lines p = Some c \<and> \<not> isClosed c
        \<and> capacity c \<le> length (queue c) \<longrightarrow>
        LogLine p line = (p, Parked OnSendLines))
   \<and> (\<not> IsTerminating (shutter p) \<and> lines p = Some c \<and> isClosed c \<longrightarrow>
        LogLine p line = (p, Panicked))
   \<and> (\<not> IsTerminating (shutter p) \<and> lines p = None \<longrightarrow>
        LogLine p line = (p, Parked OnSendLines))"
proof (intro conjI impI)
  assume "IsTerminating (shutter p)"
  then show "LogLine p line = (p, Returned)"
    by (simp add: LogLine_def)
next
  show "LogLine (p\<lparr>shutter := Shutdown err (shutter p)\<rparr>) line
       = (p\<lparr>shutter := Shutdown err (shutter p)\<rparr>, Returned)"
    by (simp add: LogLine_def IsTerminating_def Shutdown_def)
next
  assume a: "lines p = Some c \<and> \<not> isClosed c"
  then have stop: "fst (Stop readFlowDone p)
      = p\<lparr>shutter := Shutdown None (shutter p), lines := Some (c\<lparr>isClosed := True\<rparr>)\<rparr>"
    by (simp add: Stop_def chan_close_def Let_def)
  show "lines (fst (Stop readFlowDone p)) = Some (c\<lparr>isClosed := True\<rparr>)"
    by (simp add: stop)
  show "LogLine (fst (Stop readFlowDone p)) line = (fst (Stop readFlowDone p), Returned)"
    by (simp add: stop LogLine_def IsTerminating_def Shutdown_def)
next
  assume "\<not> IsTerminating (shutter p) \<and> lines p = Some c"
  then show "LogLine p line
      = (p\<lparr>lines := Some (fst (chan_send c line))\<rparr>, snd (chan_send c line))"
    by (simp add: LogLine_def case_prod_unfold)
next
  assume "\<not> IsTerminating (shutter p) \<and> lines p = Some c \<and> \<not> isClosed c
        \<and> length (queue c) < capacity c"
  then show "LogLine p line = (p\<lparr>lines := Some (c\<lparr>queue := queue c @ [line]\<rparr>)\<rparr>, Returned)"
    by (simp add: LogLine_def chan_send_def)
next
  assume a: "\<not> IsTerminating (shutter p) \<and> lines p = Some c \<and> \<not> isClosed c
        \<and> capacity c \<le> length (queue c)"
  then have "p\<lparr>lines := Some c\<rparr> = p" by simp
  with a show "LogLine p line = (p, Parked OnSendLines)"
    by (simp add: LogLine_def chan_send_def)
next
  assume a: "\<not> IsTerminating (shutter p) \<and> lines p = Some c \<and> isClosed c"
  then have "p\<lparr>lines := Some c\<rparr> = p" by simp
  with a show "LogLine p line = (p, Panicked)"
    by (simp add: LogLine_def chan_send_def)
next
  assume "\<not> IsTerminating (shutter p) \<and> lines p = None"
  then show "LogLine p line = (p, Parked OnSendLines)"
    by (simp add: LogLine_def)
qed

text \<open>
  After \<^verbatim>\<open>Launch\<close> a line is enqueued; after \<^verbatim>\<open>Stop\<close> the call returns and \<^verbatim>\<open>lines\<close>, now
  closed, stays empty; on a full channel the call waits, on a closed one it panics and
  before \<^verbatim>\<open>Launch\<close> it waits, each time with the plugin unchanged.
\<close>

theorem LogLine_by_flag_and_channel_witness:
  "LogLine (Launch None (sample_plugin 0)) ''a line''
     = ((sample_plugin 0)\<lparr>lines := Some (sample_lines [''a line''] False)\<rparr>, Returned)
   \<and> LogLine (fst (Stop True (Launch None (sample_plugin 0)))) ''a line''
     = (fst (Stop True (Launch None (sample_plugin 0))), Returned)
   \<and> lines (fst (Stop True (Launch None (sample_plugin 0)))) = Some (sample_lines [] True)
   \<and> LogLine
         ((sample_plugin 0)\<lparr>lines :=
            Some \<lparr>queue = [''line 1''], capacity = 1, isClosed = False\<rparr>\<rparr>) ''a line''
       = ((sample_plugin 0)\<lparr>lines :=
            Some \<lparr>queue = [''line 1''], capacity = 1, isClosed = False\<rparr>\<rparr>,
          Parked OnSendLines)
   \<and> LogLine ((sample_plugin 0)\<lparr>lines := Some (sample_lines [] True)\<rparr>) ''a line''
       = ((sample_plugin 0)\<lparr>lines := Some (sample_lines [] True)\<rparr>, Panicked)
   \<and> LogLine (sample_plugin 0) ''a line'' = (sample_plugin 0, Parked OnSendLines)"
proof -
  note launched = LogLine_by_flag_and_channel
      [where p = "Launch None (sample_plugin 0)" and line = "''a line''" and err = None
         and c = "make_chan 10000" and readFlowDone = True]
  note full = LogLine_by_flag_and_channel
      [where p = "(sample_plugin 0)\<lparr>lines :=
                    Some \<lparr>queue = [''line 1''], capacity = 1, isClosed = False\<rparr>\<rparr>"
         and line = "''a line''" and err = None
         and c = "\<lparr>queue = [''line 1''], capacity = 1, isClosed = False\<rparr>"
         and readFlowDone = True]
  note closed = LogLine_by_flag_and_channel
      [where p = "(sample_plugin 0)\<lparr>lines := Some (sample_lines [] True)\<rparr>"
         and line = "''a line''" and err = None and c = "sample_lines [] True"
         and readFlowDone = True]
  note unlaunched = LogLine_by_flag_and_channel
      [where p = "sample_plugin 0" and line = "''a line''" and err = None
         and c = "make_chan 10000" and readFlowDone = True]
  have l: "LogLine (Launch None (sample_plugin 0)) ''a line''
     = ((sample_plugin 0)\<lparr>lines := Some (sample_lines [''a line''] False)\<rparr>, Returned)
   \<and> LogLine (fst (Stop True (Launch None (sample_plugin 0)))) ''a line''
     = (fst (Stop True (Launch None (sample_plugin 0))), Returned)
   \<and> lines (fst (Stop True (Launch None (sample_plugin 0)))) = Some (sample_lines [] True)"
    using launched
    by (simp add: Launch_def sample_plugin_def make_chan_def sample_lines_def shutter_New_def
        IsTerminating_def chan_send_def)
  have f: "LogLine
         ((sample_plugin 0)\<lparr>lines :=
            Some \<lparr>queue = [''line 1''], capacity = 1, isClosed = False\<rparr>\<rparr>) ''a line''
       = ((sample_plugin 0)\<lparr>lines :=
            Some \<lparr>queue = [''line 1''], capacity = 1, isClosed = False\<rparr>\<rparr>,
          Parked OnSendLines)"
    using full by (simp add: sample_plugin_def shutter_New_def IsTerminating_def chan_send_def)
  have c: "LogLine ((sample_plugin 0)\<lparr>lines := Some (sample_lines [] True)\<rparr>) ''a line''
       = ((sample_plugin 0)\<lparr>lines := Some (sample_lines [] True)\<rparr>, Panicked)"
    using closed
    by (simp add: sample_plugin_def shutter_New_def IsTerminating_def sample_lines_def
        chan_send_def)
  have u: "LogLine (sample_plugin 0) ''a line'' = (sample_plugin 0, Parked OnSendLines)"
    using unlaunched by (simp add: sample_plugin_def shutter_New_def IsTerminating_def)
  from l f c u show ?thesis by simp
qed

end
